theory Spec2Isabelle
  imports Complex_Main
begin

section \<open>Values and errors\<close>

text \<open>
  The notebooks are Python. The values that reach the objective functions are integers,
  floats and strings; floats are modelled as real numbers (exact arithmetic). Every
  exception the modelled code can raise is a value of \<open>py_error\<close>; \<open>Unsupported\<close> marks
  a construct the model does not interpret, so that nothing outside the model is
  silently given a meaning.
\<close>

datatype pyval = PInt int | PFloat real | PStr string

datatype py_error =
    ZeroDivisionError
  | KeyError string
  | TypeError
  | NameError string
  | Raised string
  | Unsupported

section \<open>The objective of the tuning notebooks\<close>

text \<open>
  Nevergrad and SigOpt notebooks (\<open>src/unnamed/part_000\<close>, lines 81-84 and 433-436):
  \<^verbatim>\<open>
  def evaluate(step, width, height, activation):
      time.sleep(0.1)
      activation_boost = 10 if activation=="relu" else 1
      return (0.1 + width * step / 100) ** (-1) + height * 0.1 + activation_boost
  \<close>
  \<open>time.sleep\<close> only passes time and is left out. Python raises ZeroDivisionError when
  zero is raised to a negative power.
\<close>

definition activation_boost :: "pyval \<Rightarrow> real" where
  "activation_boost activation = (if activation = PStr ''relu'' then 10 else 1)"

definition evaluate :: "real \<Rightarrow> real \<Rightarrow> real \<Rightarrow> pyval \<Rightarrow> py_error + real" where
  "evaluate step width height activation =
     (if 0.1 + width * step / 100 = 0 then Inl ZeroDivisionError
      else Inr ((0.1 + width * step / 100) powi (- 1) + height * 0.1
                + activation_boost activation))"

text \<open>
  BayesOpt notebook (\<open>src/unnamed/part_001\<close>, lines 78-80):
  \<^verbatim>\<open>
  def evaluate(step, width, height):
      time.sleep(0.1)
      return (0.1 + width * step / 100) ** (-1) + height * 0.1
  \<close>
\<close>

definition bayesopt_evaluate :: "real \<Rightarrow> real \<Rightarrow> real \<Rightarrow> py_error + real" where
  "bayesopt_evaluate step width height =
     (if 0.1 + width * step / 100 = 0 then Inl ZeroDivisionError
      else Inr ((0.1 + width * step / 100) powi (- 1) + height * 0.1))"

text \<open>
  \<^verbatim>\<open>
  def objective(config):
      for step in range(config["steps"]):
          score = evaluate(step, config["width"], config["height"], config["activation"])
          session.report({"iterations": step, "mean_loss": score})
  \<close>
  \<open>config\<close> is a dictionary; a missing key raises KeyError, a string where a number is
  needed raises TypeError. Python evaluates the power before \<open>height * 0.1\<close>, so a zero
  base raises ZeroDivisionError before a string height raises TypeError. The reports sent
  with \<open>session.report\<close> are the returned list.
\<close>

record report =
  iterations :: int
  mean_loss :: real

definition getitem :: "(string \<rightharpoonup> pyval) \<Rightarrow> string \<Rightarrow> py_error + pyval" where
  "getitem config k = (case config k of None \<Rightarrow> Inl (KeyError k) | Some v \<Rightarrow> Inr v)"

fun as_number :: "pyval \<Rightarrow> py_error + real" where
  "as_number (PInt i) = Inr (real_of_int i)"
| "as_number (PFloat r) = Inr r"
| "as_number (PStr s) = Inl TypeError"

fun range_py :: "pyval \<Rightarrow> py_error + int list" where
  "range_py (PInt n) = Inr [0..n - 1]"
| "range_py (PFloat r) = Inl TypeError"
| "range_py (PStr s) = Inl TypeError"

definition objective_step :: "(string \<rightharpoonup> pyval) \<Rightarrow> int \<Rightarrow> py_error + report" where
  "objective_step config step =
     (case getitem config ''width'' of Inl e \<Rightarrow> Inl e | Inr width \<Rightarrow>
      case getitem config ''height'' of Inl e \<Rightarrow> Inl e | Inr height \<Rightarrow>
      case getitem config ''activation'' of Inl e \<Rightarrow> Inl e | Inr activation \<Rightarrow>
      case as_number width of Inl e \<Rightarrow> Inl e | Inr w \<Rightarrow>
      case (case as_number height of
              Inr h \<Rightarrow> evaluate (real_of_int step) w h activation
            | Inl e \<Rightarrow>
                if 0.1 + w * real_of_int step / 100 = 0 then Inl ZeroDivisionError else Inl e)
      of Inl e \<Rightarrow> Inl e | Inr score \<Rightarrow>
      Inr \<lparr>iterations = step, mean_loss = score\<rparr>)"

fun objective_loop :: "(string \<rightharpoonup> pyval) \<Rightarrow> int list \<Rightarrow> py_error + report list" where
  "objective_loop config [] = Inr []"
| "objective_loop config (step # steps) =
     (case objective_step config step of Inl e \<Rightarrow> Inl e | Inr r \<Rightarrow>
      case objective_loop config steps of Inl e \<Rightarrow> Inl e | Inr rs \<Rightarrow> Inr (r # rs))"

definition objective :: "(string \<rightharpoonup> pyval) \<Rightarrow> py_error + report list" where
  "objective config =
     (case getitem config ''steps'' of Inl e \<Rightarrow> Inl e | Inr n \<Rightarrow>
      case range_py n of Inl e \<Rightarrow> Inl e | Inr steps \<Rightarrow> objective_loop config steps)"

subsection \<open>The search space of the Nevergrad notebook\<close>

text \<open>
  Modelled from the spec: the sampling domains \<open>tune.uniform\<close> and \<open>tune.choice\<close> belong to
  the external tuning library, which is not under \<open>src/\<close>. A constant is sampled as
  itself, \<open>tune.uniform(lower, upper)\<close> as a float between its bounds, and
  \<open>tune.choice(categories)\<close> as one of the listed categories.
\<close>

datatype domain = Const pyval | Uniform real real | Choice "pyval list"

fun in_domain :: "domain \<Rightarrow> pyval \<Rightarrow> bool" where
  "in_domain (Const c) v = (v = c)"
| "in_domain (Uniform lower upper) v =
     (case v of PFloat r \<Rightarrow> lower \<le> r \<and> r \<le> upper | _ \<Rightarrow> False)"
| "in_domain (Choice categories) v = (v \<in> set categories)"

definition sampled_from :: "(string \<times> domain) list \<Rightarrow> (string \<rightharpoonup> pyval) \<Rightarrow> bool" where
  "sampled_from space config =
     list_all (\<lambda>(k, d). case config k of None \<Rightarrow> False | Some v \<Rightarrow> in_domain d v) space"

text \<open>
  \<open>src/unnamed/part_000\<close>, lines 203-208:
  \<^verbatim>\<open>
  search_config = {
      "steps": 100,
      "width": tune.uniform(0, 20),
      "height": tune.uniform(-100, 100),
      "activation": tune.choice(["relu, tanh"])
  }
  \<close>
\<close>

definition search_config :: "(string \<times> domain) list" where
  "search_config =
     [(''steps'', Const (PInt 100)),
      (''width'', Uniform 0 20),
      (''height'', Uniform (- 100) 100),
      (''activation'', Choice [PStr ''relu, tanh''])]"

section \<open>The experiment file\<close>

text \<open>
  \<open>src/unnamed/part_002\<close> is a YAML document: nested mappings with scalar leaves.
\<close>

datatype yaml = YStr string | YInt int | YFloat real | YBool bool | YMap "(string \<times> yaml) list"

fun yget :: "yaml \<Rightarrow> string \<Rightarrow> yaml option" where
  "yget (YMap kvs) k = map_of kvs k"
| "yget _ k = None"

fun ypath :: "yaml \<Rightarrow> string list \<Rightarrow> yaml option" where
  "ypath y [] = Some y"
| "ypath y (k # ks) = (case yget y k of None \<Rightarrow> None | Some y' \<Rightarrow> ypath y' ks)"

definition cartpole_crashing_yaml :: yaml where
  "cartpole_crashing_yaml =
     YMap [(''cartpole-crashing-with-remote-envs-pg'', YMap
       [(''env'', YStr ''ray.rllib.examples.env.cartpole_crashing.CartPoleCrashing''),
        (''run'', YStr ''PG''),
        (''stop'', YMap
          [(''episode_reward_mean'', YFloat 35.0),
           (''timesteps_total'', YInt 25000)]),
        (''config'', YMap
          [(''framework'', YStr ''tf''),
           (''env_config'', YMap
             [(''config'', YMap
               [(''p_crash'', YFloat 0.0),
                (''crash_after_n_steps'', YInt 60),
                (''init_time_s'', YFloat 2.0)])]),
           (''num_workers'', YInt 4),
           (''num_envs_per_worker'', YInt 3),
           (''rollout_fragment_length'', YInt 50),
           (''remote_worker_envs'', YBool True),
           (''disable_env_checking'', YBool True),
           (''restart_failed_sub_environments'', YBool True)])])]"

definition cartpole_experiment :: "string list \<Rightarrow> yaml option" where
  "cartpole_experiment path = ypath cartpole_crashing_yaml (''cartpole-crashing-with-remote-envs-pg'' # path)"

text \<open>
  Modelled from the spec: the environment CartPoleCrashing is code of the training
  framework and is not under \<open>src/\<close>. From the claim and the comments of the YAML file:
  \<open>p_crash\<close> is the probability that a step crashes, and \<open>crash_after_n_steps\<close> makes
  the environment crash exactly after that many steps. A step draws a number from
  [0, 1) and crashes when the draw is below \<open>p_crash\<close> or when the count of steps reaches
  \<open>crash_after_n_steps\<close>. \<open>run_env\<close> steps a sub-environment through a list of draws,
  one per step, and returns the number of the step that crashed, if one did.
\<close>

definition crashes :: "real \<Rightarrow> nat \<Rightarrow> real \<Rightarrow> nat \<Rightarrow> bool" where
  "crashes p_crash crash_after_n_steps draw timesteps =
     (draw < p_crash \<or> timesteps = crash_after_n_steps)"

fun run_env :: "real \<Rightarrow> nat \<Rightarrow> nat \<Rightarrow> real list \<Rightarrow> nat option" where
  "run_env p_crash crash_after_n_steps timesteps [] = None"
| "run_env p_crash crash_after_n_steps timesteps (draw # draws) =
     (if crashes p_crash crash_after_n_steps draw (Suc timesteps) then Some (Suc timesteps)
      else run_env p_crash crash_after_n_steps (Suc timesteps) draws)"

text \<open>
  Modelled from the spec: a sub-environment built from the experiment file takes its two
  crash parameters from the mapping \<open>config / env_config / config\<close>, where the file has
  them, and starts with a step count of 0.
\<close>

definition sub_environment_crash :: "real list \<Rightarrow> nat option option" where
  "sub_environment_crash draws =
     (case (cartpole_experiment [''config'', ''env_config'', ''config'', ''p_crash''],
            cartpole_experiment [''config'', ''env_config'', ''config'', ''crash_after_n_steps'']) of
        (Some (YFloat p), Some (YInt n)) \<Rightarrow> Some (run_env p (nat n) 0 draws)
      | _ \<Rightarrow> None)"

section \<open>The notebooks\<close>

subsection \<open>Python syntax\<close>

text \<open>
  The notebooks are JSON documents whose code cells hold Python source. Each code cell is
  the list of its statements, as Python parses them; comments and markdown cells carry no
  behaviour and are left out, and so are the type annotations of parameters (they only
  read the names \<open>int\<close>, \<open>ray\<close> and \<open>pd\<close>, which are bound where the
  definitions are executed). A keyword argument \<open>k=e\<close> is the
  element \<open>Kw k e\<close> of the argument list, a dictionary entry \<open>k: v\<close> is \<open>Item k v\<close>, and
  \<open>IfExp a c b\<close> is the conditional expression \<open>a if c else b\<close>. A line \<open>!command\<close> of
  a cell is the shell escape \<open>Shell command\<close>.
\<close>

datatype expr =
    Name string
  | IntLit int
  | FloatLit real
  | StrLit string
  | BoolLit bool
  | Attr expr string
  | Call expr "expr list"
  | Kw string expr
  | Subscript expr expr
  | ListE "expr list"
  | TupleE "expr list"
  | DictE "expr list"
  | Item expr expr
  | Lambda "string list" expr
  | BinOp expr string expr
  | Neg expr
  | Compare expr string expr
  | IfExp expr expr expr
  | ListComp expr "string list" expr

datatype stmt =
    Import string "string option"
  | FromImport string string
  | Assign expr expr
  | AugAssign expr string expr
  | Expr expr
  | Def string "string list" "stmt list"
  | ClassDef "expr list" string "stmt list"
  | If expr "stmt list" "stmt list"
  | For "string list" expr "stmt list"
  | Raise expr
  | Try "stmt list" "string list" "stmt list"
  | Return expr
  | Pass
  | Del string
  | Shell string

subsection \<open>Symbolic values\<close>

text \<open>
  The cells call into external libraries (the execution framework, its tuning and dataset
  engines, the search packages). Their code is not part of the repository, so a library
  object is the symbol \<open>VLib\<close> of its dotted path, and the result of calling one is the
  term \<open>VCall f args\<close> of the call itself. A function, class or lambda of a notebook is a
  closure over its syntax. The state of a notebook session is its global namespace, the
  names of the environment variables that are set, and the external calls made so far.
\<close>

datatype sval =
    VInt int
  | VFloat real
  | VStr string
  | VBool bool
  | VLib string
  | VBuiltin string
  | VAttr sval string
  | VCall sval "sval list"
  | VKw string sval
  | VItem sval sval
  | VIndex sval nat
  | VList "sval list"
  | VTuple "sval list"
  | VDict "sval list"
  | VOp string "sval list"
  | VLambda "string list" expr
  | VFun string "string list" "stmt list"
  | VClass string "stmt list"

record state =
  ns :: "(string \<times> sval) list"
  environ :: "string list"
  calls :: "sval list"

text \<open>
  Name lookup follows Python: the globals of the session first, then the builtins
  (\<open>dir(builtins)\<close> of Python 3, and the names IPython adds); a name found in neither
  raises NameError.
\<close>

definition builtins :: "string list" where
  "builtins =
     [''ArithmeticError'', ''AssertionError'', ''AttributeError'', ''BaseException'',
      ''BaseExceptionGroup'', ''BlockingIOError'', ''BrokenPipeError'', ''BufferError'',
      ''BytesWarning'', ''ChildProcessError'', ''ConnectionAbortedError'',
      ''ConnectionError'', ''ConnectionRefusedError'', ''ConnectionResetError'',
      ''DeprecationWarning'', ''EOFError'', ''Ellipsis'', ''EncodingWarning'',
      ''EnvironmentError'', ''Exception'', ''ExceptionGroup'', ''False'', ''FileExistsError'',
      ''FileNotFoundError'', ''FloatingPointError'', ''FutureWarning'', ''GeneratorExit'',
      ''IOError'', ''ImportError'', ''ImportWarning'', ''IndentationError'', ''IndexError'',
      ''InterruptedError'', ''IsADirectoryError'', ''KeyError'', ''KeyboardInterrupt'',
      ''LookupError'', ''MemoryError'', ''ModuleNotFoundError'', ''NameError'', ''None'',
      ''NotADirectoryError'', ''NotImplemented'', ''NotImplementedError'', ''OSError'',
      ''OverflowError'', ''PendingDeprecationWarning'', ''PermissionError'',
      ''ProcessLookupError'', ''RecursionError'', ''ReferenceError'', ''ResourceWarning'',
      ''RuntimeError'', ''RuntimeWarning'', ''StopAsyncIteration'', ''StopIteration'',
      ''SyntaxError'', ''SyntaxWarning'', ''SystemError'', ''SystemExit'', ''TabError'',
      ''TimeoutError'', ''True'', ''TypeError'', ''UnboundLocalError'',
      ''UnicodeDecodeError'', ''UnicodeEncodeError'', ''UnicodeError'',
      ''UnicodeTranslateError'', ''UnicodeWarning'', ''UserWarning'', ''ValueError'',
      ''Warning'', ''ZeroDivisionError'', ''__build_class__'', ''__debug__'', ''__doc__'',
      ''__import__'', ''__loader__'', ''__name__'', ''__package__'', ''__spec__'', ''abs'',
      ''aiter'', ''all'', ''anext'', ''any'', ''ascii'', ''bin'', ''bool'', ''breakpoint'',
      ''bytearray'', ''bytes'', ''callable'', ''chr'', ''classmethod'', ''compile'',
      ''complex'', ''copyright'', ''credits'', ''delattr'', ''dict'', ''dir'', ''divmod'',
      ''enumerate'', ''eval'', ''exec'', ''exit'', ''filter'', ''float'', ''format'',
      ''frozenset'', ''getattr'', ''globals'', ''hasattr'', ''hash'', ''help'', ''hex'',
      ''id'', ''input'', ''int'', ''isinstance'', ''issubclass'', ''iter'', ''len'',
      ''license'', ''list'', ''locals'', ''map'', ''max'', ''memoryview'', ''min'', ''next'',
      ''object'', ''oct'', ''open'', ''ord'', ''pow'', ''print'', ''property'', ''quit'',
      ''range'', ''repr'', ''reversed'', ''round'', ''set'', ''setattr'', ''slice'',
      ''sorted'', ''staticmethod'', ''str'', ''sum'', ''super'', ''tuple'', ''type'',
      ''vars'', ''zip'']"

definition ipython_names :: "string list" where
  "ipython_names = [''In'', ''Out'', ''get_ipython'', ''display'']"

definition lookup :: "state \<Rightarrow> string \<Rightarrow> py_error + sval" where
  "lookup s x =
     (case map_of (ns s) x of
        Some v \<Rightarrow> Inr v
      | None \<Rightarrow> if x \<in> set builtins \<or> x \<in> set ipython_names then Inr (VBuiltin x)
                else Inl (NameError x))"

definition bind :: "string \<Rightarrow> sval \<Rightarrow> state \<Rightarrow> state" where
  "bind x v s = s\<lparr>ns := (x, v) # filter (\<lambda>(y, _). y \<noteq> x) (ns s)\<rparr>"

text \<open>\<open>kwarg k args\<close> is the value of the keyword argument \<open>k\<close> in an argument list.\<close>

fun kwarg :: "string \<Rightarrow> sval list \<Rightarrow> sval option" where
  "kwarg k [] = None"
| "kwarg k (VKw k' v # args) = (if k' = k then Some v else kwarg k args)"
| "kwarg k (_ # args) = kwarg k args"

text \<open>
  Modelled from the spec: \<open>Dataset.split\<close> belongs to the external dataset engine. A call
  \<open>split(n=k, ...)\<close> returns a list of \<open>k\<close> shards; shard \<open>i\<close> of the call \<open>v\<close> is
  \<open>VIndex v i\<close>. Every other external call returns the term of the call. An external call
  is recorded in \<open>calls\<close>. The builtins \<open>range\<close>, \<open>len\<close> and \<open>zip\<close> are computed on
  lists; calling a function or class of the notebook itself is outside the model
  (the cells never do so at top level).
\<close>

definition returns :: "sval \<Rightarrow> sval" where
  "returns v =
     (case v of
        VCall (VAttr d m) args \<Rightarrow>
          (if m = ''split'' then
             (case kwarg ''n'' args of
                Some (VInt k) \<Rightarrow> VList (map (VIndex v) [0..<nat k])
              | _ \<Rightarrow> v)
           else v)
      | _ \<Rightarrow> v)"

definition external :: "sval \<Rightarrow> sval list \<Rightarrow> state \<Rightarrow> (py_error + sval) \<times> state" where
  "external f args s = (Inr (returns (VCall f args)), s\<lparr>calls := calls s @ [VCall f args]\<rparr>)"

definition call :: "sval \<Rightarrow> sval list \<Rightarrow> state \<Rightarrow> (py_error + sval) \<times> state" where
  "call f args s =
     (case f of
        VBuiltin b \<Rightarrow>
          (if b = ''range'' then
             (case args of [VInt n] \<Rightarrow> (Inr (VList (map VInt [0..n - 1])), s)
                         | _ \<Rightarrow> (Inl Unsupported, s))
           else if b = ''len'' then
             (case args of [VList xs] \<Rightarrow> (Inr (VInt (int (length xs))), s)
                         | _ \<Rightarrow> (Inl Unsupported, s))
           else if b = ''zip'' then
             (case args of [VList xs, VList ys] \<Rightarrow>
                             (Inr (VList (map (\<lambda>(x, y). VTuple [x, y]) (zip xs ys))), s)
                         | _ \<Rightarrow> (Inl Unsupported, s))
           else external f args s)
      | VLib p \<Rightarrow> external f args s
      | VAttr v a \<Rightarrow> external f args s
      | _ \<Rightarrow> (Inl Unsupported, s))"

subsection \<open>Evaluation of expressions\<close>

text \<open>
  Python evaluates the callee before the arguments, and the arguments left to right.
  \<open>"k" not in os.environ\<close> and \<open>os.environ["k"]\<close> read the environment of the state;
  other operators on library values stay symbolic. The variables of a list comprehension
  are local to it.
\<close>

fun bind_targets :: "string list \<Rightarrow> sval \<Rightarrow> state \<Rightarrow> state option" where
  "bind_targets [x] v s = Some (bind x v s)"
| "bind_targets xs (VTuple vs) s =
     (if length xs = length vs then Some (fold (\<lambda>(x, v). bind x v) (zip xs vs) s) else None)"
| "bind_targets xs v s = None"

fun eval :: "state \<Rightarrow> expr \<Rightarrow> (py_error + sval) \<times> state"
  and evals :: "state \<Rightarrow> expr list \<Rightarrow> (py_error + sval list) \<times> state"
  and eval_each :: "state \<Rightarrow> string list \<Rightarrow> expr \<Rightarrow> sval list \<Rightarrow> (py_error + sval list) \<times> state"
where
  "eval s (Name x) = (lookup s x, s)"
| "eval s (IntLit n) = (Inr (VInt n), s)"
| "eval s (FloatLit r) = (Inr (VFloat r), s)"
| "eval s (StrLit t) = (Inr (VStr t), s)"
| "eval s (BoolLit b) = (Inr (VBool b), s)"
| "eval s (Attr e a) =
     (case eval s e of
        (Inl err, s1) \<Rightarrow> (Inl err, s1)
      | (Inr (VLib p), s1) \<Rightarrow> (Inr (VLib (p @ ''.'' @ a)), s1)
      | (Inr v, s1) \<Rightarrow> (Inr (VAttr v a), s1))"
| "eval s (Call f args) =
     (case eval s f of
        (Inl err, s1) \<Rightarrow> (Inl err, s1)
      | (Inr fv, s1) \<Rightarrow>
          (case evals s1 args of
             (Inl err, s2) \<Rightarrow> (Inl err, s2)
           | (Inr vs, s2) \<Rightarrow> call fv vs s2))"
| "eval s (Kw k e) =
     (case eval s e of
        (Inl err, s1) \<Rightarrow> (Inl err, s1)
      | (Inr v, s1) \<Rightarrow> (Inr (VKw k v), s1))"
| "eval s (Subscript e i) =
     (case eval s e of
        (Inl err, s1) \<Rightarrow> (Inl err, s1)
      | (Inr v, s1) \<Rightarrow>
          (case eval s1 i of
             (Inl err, s2) \<Rightarrow> (Inl err, s2)
           | (Inr iv, s2) \<Rightarrow>
               (case (v, iv) of
                  (VLib p, VStr k) \<Rightarrow>
                    (if p = ''os.environ'' \<and> k \<notin> set (environ s2) then (Inl (KeyError k), s2)
                     else (Inr (VOp ''[]'' [v, iv]), s2))
                | _ \<Rightarrow> (Inr (VOp ''[]'' [v, iv]), s2))))"
| "eval s (ListE es) =
     (case evals s es of
        (Inl err, s1) \<Rightarrow> (Inl err, s1)
      | (Inr vs, s1) \<Rightarrow> (Inr (VList vs), s1))"
| "eval s (TupleE es) =
     (case evals s es of
        (Inl err, s1) \<Rightarrow> (Inl err, s1)
      | (Inr vs, s1) \<Rightarrow> (Inr (VTuple vs), s1))"
| "eval s (DictE es) =
     (case evals s es of
        (Inl err, s1) \<Rightarrow> (Inl err, s1)
      | (Inr vs, s1) \<Rightarrow> (Inr (VDict vs), s1))"
| "eval s (Item k e) =
     (case eval s k of
        (Inl err, s1) \<Rightarrow> (Inl err, s1)
      | (Inr kv, s1) \<Rightarrow>
          (case eval s1 e of
             (Inl err, s2) \<Rightarrow> (Inl err, s2)
           | (Inr v, s2) \<Rightarrow> (Inr (VItem kv v), s2)))"
| "eval s (Lambda ps body) = (Inr (VLambda ps body), s)"
| "eval s (BinOp a op b) =
     (case eval s a of
        (Inl err, s1) \<Rightarrow> (Inl err, s1)
      | (Inr av, s1) \<Rightarrow>
          (case eval s1 b of
             (Inl err, s2) \<Rightarrow> (Inl err, s2)
           | (Inr bv, s2) \<Rightarrow> (Inr (VOp op [av, bv]), s2)))"
| "eval s (Neg e) =
     (case eval s e of
        (Inl err, s1) \<Rightarrow> (Inl err, s1)
      | (Inr (VInt n), s1) \<Rightarrow> (Inr (VInt (- n)), s1)
      | (Inr (VFloat r), s1) \<Rightarrow> (Inr (VFloat (- r)), s1)
      | (Inr v, s1) \<Rightarrow> (Inr (VOp ''-'' [v]), s1))"
| "eval s (Compare a op b) =
     (case eval s a of
        (Inl err, s1) \<Rightarrow> (Inl err, s1)
      | (Inr av, s1) \<Rightarrow>
          (case eval s1 b of
             (Inl err, s2) \<Rightarrow> (Inl err, s2)
           | (Inr bv, s2) \<Rightarrow>
               (case (av, bv) of
                  (VStr k, VLib p) \<Rightarrow>
                    (if p = ''os.environ'' \<and> op = ''not in''
                     then (Inr (VBool (k \<notin> set (environ s2))), s2)
                     else (Inr (VOp op [av, bv]), s2))
                | _ \<Rightarrow> (Inr (VOp op [av, bv]), s2))))"
| "eval s (IfExp a c b) =
     (case eval s c of
        (Inl err, s1) \<Rightarrow> (Inl err, s1)
      | (Inr (VBool t), s1) \<Rightarrow> (if t then eval s1 a else eval s1 b)
      | (Inr v, s1) \<Rightarrow> (Inl Unsupported, s1))"
| "eval s (ListComp elt targets iter) =
     (case eval s iter of
        (Inl err, s1) \<Rightarrow> (Inl err, s1)
      | (Inr (VList items), s1) \<Rightarrow>
          (case eval_each s1 targets elt items of
             (Inl err, s2) \<Rightarrow> (Inl err, s2)
           | (Inr vs, s2) \<Rightarrow> (Inr (VList vs), s2))
      | (Inr v, s1) \<Rightarrow> (Inl Unsupported, s1))"
| "evals s [] = (Inr [], s)"
| "evals s (e # es) =
     (case eval s e of
        (Inl err, s1) \<Rightarrow> (Inl err, s1)
      | (Inr v, s1) \<Rightarrow>
          (case evals s1 es of
             (Inl err, s2) \<Rightarrow> (Inl err, s2)
           | (Inr vs, s2) \<Rightarrow> (Inr (v # vs), s2)))"
| "eval_each s targets elt [] = (Inr [], s)"
| "eval_each s targets elt (item # items) =
     (case bind_targets targets item s of
        None \<Rightarrow> (Inl Unsupported, s)
      | Some local \<Rightarrow>
          (case eval local elt of
             (Inl err, s1) \<Rightarrow> (Inl err, s1\<lparr>ns := ns s\<rparr>)
           | (Inr v, s1) \<Rightarrow>
               (case eval_each (s1\<lparr>ns := ns s\<rparr>) targets elt items of
                  (Inl err, s2) \<Rightarrow> (Inl err, s2)
                | (Inr vs, s2) \<Rightarrow> (Inr (v # vs), s2))))"


subsection \<open>Execution of statements, cells and notebooks\<close>

text \<open>
  A statement returns the error it raised, if any, and the state it left. \<open>import\<close>
  binds a library object (the libraries are taken to be installed), \<open>def\<close> and \<open>class\<close>
  bind closures, \<open>raise\<close> raises the exception class it names, and \<open>try\<close> runs its
  handler when the body raised an exception the handler names. \<open>for\<close> and \<open>return\<close>
  occur only inside function bodies, which the cells never run themselves.
  A failing statement ends its cell. \<open>run_all\<close> stops at the first failing cell, as
  "Run All" does; \<open>run_each\<close> executes every cell in order, whether or not an earlier one
  failed, and lists the cells that failed.
\<close>

definition error_name :: "py_error \<Rightarrow> string" where
  "error_name err =
     (case err of
        ZeroDivisionError \<Rightarrow> ''ZeroDivisionError''
      | KeyError k \<Rightarrow> ''KeyError''
      | TypeError \<Rightarrow> ''TypeError''
      | NameError x \<Rightarrow> ''NameError''
      | Raised c \<Rightarrow> c
      | Unsupported \<Rightarrow> [])"

definition handles :: "string list \<Rightarrow> py_error \<Rightarrow> bool" where
  "handles excs err =
     (err \<noteq> Unsupported \<and> (excs = [] \<or> error_name err \<in> set excs \<or> ''Exception'' \<in> set excs))"

definition exception_class :: "sval \<Rightarrow> string" where
  "exception_class v =
     (case v of VCall (VBuiltin c) args \<Rightarrow> c | VBuiltin c \<Rightarrow> c | _ \<Rightarrow> [])"

fun is_def :: "stmt \<Rightarrow> bool" where
  "is_def (Def f ps body) = True"
| "is_def Pass = True"
| "is_def _ = False"

fun decorate :: "sval list \<Rightarrow> sval \<Rightarrow> state \<Rightarrow> (py_error + sval) \<times> state" where
  "decorate [] c s = (Inr c, s)"
| "decorate (d # ds) c s =
     (case decorate ds c s of
        (Inl err, s1) \<Rightarrow> (Inl err, s1)
      | (Inr c1, s1) \<Rightarrow> call d [c1] s1)"

fun exec :: "state \<Rightarrow> stmt \<Rightarrow> py_error option \<times> state"
  and exec_block :: "state \<Rightarrow> stmt list \<Rightarrow> py_error option \<times> state"
where
  "exec s (Import m a) =
     (case a of
        Some n \<Rightarrow> (None, bind n (VLib m) s)
      | None \<Rightarrow> (None, bind (takeWhile (\<lambda>c. c \<noteq> CHR ''.'') m)
                         (VLib (takeWhile (\<lambda>c. c \<noteq> CHR ''.'') m)) s))"
| "exec s (FromImport m n) = (None, bind n (VLib (m @ ''.'' @ n)) s)"
| "exec s (Assign target e) =
     (case eval s e of
        (Inl err, s1) \<Rightarrow> (Some err, s1)
      | (Inr v, s1) \<Rightarrow>
          (case target of
             Name x \<Rightarrow> (None, bind x v s1)
           | Subscript a i \<Rightarrow>
               (case eval s1 a of
                  (Inl err, s2) \<Rightarrow> (Some err, s2)
                | (Inr av, s2) \<Rightarrow>
                    (case eval s2 i of
                       (Inl err, s3) \<Rightarrow> (Some err, s3)
                     | (Inr iv, s3) \<Rightarrow>
                         (case (av, iv) of
                            (VLib p, VStr k) \<Rightarrow>
                              (if p = ''os.environ''
                               then (None, s3\<lparr>environ := k # environ s3\<rparr>)
                               else (None, s3\<lparr>calls := calls s3 @ [VOp ''[]='' [av, iv, v]]\<rparr>))
                          | _ \<Rightarrow> (None, s3\<lparr>calls := calls s3 @ [VOp ''[]='' [av, iv, v]]\<rparr>))))
           | _ \<Rightarrow> (Some Unsupported, s1)))"
| "exec s (AugAssign target op e) =
     (case target of
        Name x \<Rightarrow>
          (case lookup s x of
             Inl err \<Rightarrow> (Some err, s)
           | Inr old \<Rightarrow>
               (case eval s e of
                  (Inl err, s1) \<Rightarrow> (Some err, s1)
                | (Inr v, s1) \<Rightarrow> (None, bind x (VOp op [old, v]) s1)))
      | _ \<Rightarrow> (Some Unsupported, s))"
| "exec s (Expr e) =
     (case eval s e of
        (Inl err, s1) \<Rightarrow> (Some err, s1)
      | (Inr v, s1) \<Rightarrow> (None, s1))"
| "exec s (Def f ps body) = (None, bind f (VFun f ps body) s)"
| "exec s (ClassDef decorators c body) =
     (case evals s decorators of
        (Inl err, s1) \<Rightarrow> (Some err, s1)
      | (Inr ds, s1) \<Rightarrow>
          (if list_all is_def body then
             (case decorate ds (VClass c body) s1 of
                (Inl err, s2) \<Rightarrow> (Some err, s2)
              | (Inr v, s2) \<Rightarrow> (None, bind c v s2))
           else (Some Unsupported, s1)))"
| "exec s (If c body orelse) =
     (case eval s c of
        (Inl err, s1) \<Rightarrow> (Some err, s1)
      | (Inr (VBool t), s1) \<Rightarrow> (if t then exec_block s1 body else exec_block s1 orelse)
      | (Inr v, s1) \<Rightarrow> (Some Unsupported, s1))"
| "exec s (For targets iter body) = (Some Unsupported, s)"
| "exec s (Raise e) =
     (case eval s e of
        (Inl err, s1) \<Rightarrow> (Some err, s1)
      | (Inr v, s1) \<Rightarrow> (Some (Raised (exception_class v)), s1))"
| "exec s (Try body excs handler) =
     (case exec_block s body of
        (None, s1) \<Rightarrow> (None, s1)
      | (Some err, s1) \<Rightarrow>
          (if handles excs err then exec_block s1 handler else (Some err, s1)))"
| "exec s (Return e) = (Some Unsupported, s)"
| "exec s Pass = (None, s)"
| "exec s (Del x) =
     (case map_of (ns s) x of
        None \<Rightarrow> (Some (NameError x), s)
      | Some v \<Rightarrow> (None, s\<lparr>ns := filter (\<lambda>(y, _). y \<noteq> x) (ns s)\<rparr>))"
| "exec s (Shell command) = (None, s)"
| "exec_block s [] = (None, s)"
| "exec_block s (st # sts) =
     (case exec s st of
        (Some err, s1) \<Rightarrow> (Some err, s1)
      | (None, s1) \<Rightarrow> exec_block s1 sts)"

definition initial :: "string list \<Rightarrow> state" where
  "initial env = \<lparr>ns = [], environ = env, calls = []\<rparr>"

fun run_all :: "state \<Rightarrow> (string \<times> stmt list) list \<Rightarrow> (string \<times> py_error) option \<times> state" where
  "run_all s [] = (None, s)"
| "run_all s ((cid, body) # cells) =
     (case exec_block s body of
        (Some err, s1) \<Rightarrow> (Some (cid, err), s1)
      | (None, s1) \<Rightarrow> run_all s1 cells)"

fun run_each :: "state \<Rightarrow> (string \<times> stmt list) list \<Rightarrow> (string \<times> py_error) list \<times> state" where
  "run_each s [] = ([], s)"
| "run_each s ((cid, body) # cells) =
     (case exec_block s body of
        (Some err, s1) \<Rightarrow> (case run_each s1 cells of (errs, s2) \<Rightarrow> ((cid, err) # errs, s2))
      | (None, s1) \<Rightarrow> run_each s1 cells)"

subsection \<open>Syntactic properties of cells\<close>

text \<open>
  \<open>binds\<close> lists the global names a statement can bind; \<open>raises\<close> and \<open>catches\<close> say
  whether a \<open>raise\<close> or a \<open>try\<close> occurs anywhere in a statement, function and class
  bodies included.
\<close>

fun target_names :: "expr \<Rightarrow> string list" where
  "target_names (Name x) = [x]"
| "target_names (TupleE es) = concat (map target_names es)"
| "target_names (ListE es) = concat (map target_names es)"
| "target_names _ = []"

fun binds :: "stmt \<Rightarrow> string list" where
  "binds (Import m a) =
     [case a of Some n \<Rightarrow> n | None \<Rightarrow> takeWhile (\<lambda>c. c \<noteq> CHR ''.'') m]"
| "binds (FromImport m n) = [n]"
| "binds (Assign target e) = target_names target"
| "binds (AugAssign target op e) = target_names target"
| "binds (Def f ps body) = [f]"
| "binds (ClassDef decorators c body) = [c]"
| "binds (If c body orelse) = concat (map binds body) @ concat (map binds orelse)"
| "binds (For targets iter body) = targets @ concat (map binds body)"
| "binds (Try body excs handler) = concat (map binds body) @ concat (map binds handler)"
| "binds _ = []"

definition bound_names :: "(string \<times> stmt list) list \<Rightarrow> string list" where
  "bound_names cells = concat (map (\<lambda>(cid, body). concat (map binds body)) cells)"

fun raises :: "stmt \<Rightarrow> bool" where
  "raises (Raise e) = True"
| "raises (Def f ps body) = list_ex raises body"
| "raises (ClassDef decorators c body) = list_ex raises body"
| "raises (If c body orelse) = (list_ex raises body \<or> list_ex raises orelse)"
| "raises (For targets iter body) = list_ex raises body"
| "raises (Try body excs handler) = (list_ex raises body \<or> list_ex raises handler)"
| "raises _ = False"

fun catches :: "stmt \<Rightarrow> bool" where
  "catches (Try body excs handler) = True"
| "catches (Def f ps body) = list_ex catches body"
| "catches (ClassDef decorators c body) = list_ex catches body"
| "catches (If c body orelse) = (list_ex catches body \<or> list_ex catches orelse)"
| "catches (For targets iter body) = list_ex catches body"
| "catches _ = False"

subsection \<open>Reading a session\<close>

text \<open>
  \<open>tune_runs\<close> selects the calls of \<open>tune.run\<close> from the recorded calls and
  \<open>search_alg\<close> the value of that keyword argument. \<open>backend\<close> is the search backend
  behind a search algorithm value: the constructor itself, or the constructor wrapped in
  \<open>ConcurrencyLimiter\<close>. \<open>callee\<close> prints what a call was made on: the dotted path of a
  library object followed by the methods called on its results.
\<close>

definition cell :: "(string \<times> stmt list) list \<Rightarrow> string \<Rightarrow> stmt list" where
  "cell cells cid = (case map_of cells cid of Some body \<Rightarrow> body | None \<Rightarrow> [])"

definition cells_before :: "(string \<times> stmt list) list \<Rightarrow> string \<Rightarrow> (string \<times> stmt list) list" where
  "cells_before cells cid = takeWhile (\<lambda>c. fst c \<noteq> cid) cells"

definition tune_runs :: "sval list \<Rightarrow> sval list" where
  "tune_runs cs =
     filter (\<lambda>v. case v of VCall (VLib p) args \<Rightarrow> p = ''ray.tune.run'' | _ \<Rightarrow> False) cs"

definition search_alg :: "sval \<Rightarrow> sval option" where
  "search_alg v = (case v of VCall f args \<Rightarrow> kwarg ''search_alg'' args | _ \<Rightarrow> None)"

definition search_backends :: "string list" where
  "search_backends =
     [''ray.tune.search.nevergrad.NevergradSearch'',
      ''ray.tune.search.bayesopt.BayesOptSearch'',
      ''ray.tune.search.sigopt.SigOptSearch'']"

fun backend :: "sval \<Rightarrow> string option" where
  "backend (VCall (VLib p) (a # args)) =
     (if p = ''ray.tune.search.ConcurrencyLimiter'' then backend a
      else if p \<in> set search_backends then Some p else None)"
| "backend (VCall (VLib p) []) = (if p \<in> set search_backends then Some p else None)"
| "backend _ = None"

fun callee :: "sval \<Rightarrow> string" where
  "callee (VCall f args) = callee f"
| "callee (VLib p) = p"
| "callee (VBuiltin b) = b"
| "callee (VAttr v a) = callee v @ ''.'' @ a"
| "callee (VIndex v i) = callee v @ ''[]''"
| "callee _ = []"


definition constructed :: "sval list \<Rightarrow> sval list" where
  "constructed cs = filter (\<lambda>v. callee v \<in> set search_backends) cs"

definition search_backend :: "sval \<Rightarrow> string option" where
  "search_backend v = (case search_alg v of None \<Rightarrow> None | Some a \<Rightarrow> backend a)"

fun call_args :: "sval \<Rightarrow> sval list" where
  "call_args (VCall f args) = args"
| "call_args _ = []"

subsection \<open>The four notebooks\<close>

text \<open>
  \<open>src/unnamed/part_000\<close> holds the Nevergrad notebook (lines 1-348) and the SigOpt
  notebook (lines 349-899), \<open>src/unnamed/part_001\<close> the BayesOpt notebook, and
  \<open>src/doc/source/data/examples/nyc_taxi_basic_processing.ipynb\<close> the data-processing
  notebook. Each code cell is paired with its cell id.
\<close>

definition nevergrad_notebook :: "(string \<times> stmt list) list" where
  "nevergrad_notebook =
     [(''5ab54f85'',
       [Shell ''pip install nevergrad==0.4.3.post7'']),
      (''1f6d7a31'',
       [Import ''time'' None,
        Import ''ray'' None,
        Import ''nevergrad'' (Some ''ng''),
        FromImport ''ray'' ''tune'',
        FromImport ''ray.air'' ''session'',
        FromImport ''ray.tune.search'' ''ConcurrencyLimiter'',
        FromImport ''ray.tune.search.nevergrad'' ''NevergradSearch'']),
      (''271bd5c5'',
       [Def ''evaluate'' [''step'', ''width'', ''height'', ''activation'']
          [Expr (Call (Attr (Name ''time'') ''sleep'') [FloatLit 0.1]),
           Assign (Name ''activation_boost'')
             (IfExp (IntLit 10) (Compare (Name ''activation'') ''=='' (StrLit ''relu''))
                (IntLit 1)),
           Return
             (BinOp
                (BinOp
                   (BinOp
                      (BinOp (FloatLit 0.1) ''+''
                         (BinOp (BinOp (Name ''width'') ''*'' (Name ''step'')) ''/''
                            (IntLit 100)))
                      ''**''
                      (Neg (IntLit 1)))
                   ''+''
                   (BinOp (Name ''height'') ''*'' (FloatLit 0.1)))
                ''+''
                (Name ''activation_boost''))]]),
      (''c71fc423'',
       [Def ''objective'' [''config'']
          [For [''step'']
             (Call (Name ''range'') [Subscript (Name ''config'') (StrLit ''steps'')])
             [Assign (Name ''score'')
                (Call (Name ''evaluate'')
                   [Name ''step'',
                    Subscript (Name ''config'') (StrLit ''width''),
                    Subscript (Name ''config'') (StrLit ''height''),
                    Subscript (Name ''config'') (StrLit ''activation'')]),
              Expr
                (Call (Attr (Name ''session'') ''report'')
                   [DictE
                      [Item (StrLit ''iterations'') (Name ''step''),
                       Item (StrLit ''mean_loss'') (Name ''score'')]])]]]),
      (''619263ee'',
       [Expr (Call (Attr (Name ''ray'') ''init'') [Kw ''configure_logging'' (BoolLit False)])]),
      (''f099b674'',
       [Assign (Name ''algo'')
          (Call (Name ''NevergradSearch'')
             [Kw ''optimizer'' (Attr (Attr (Name ''ng'') ''optimizers'') ''OnePlusOne'')]),
        Assign (Name ''algo'')
          (Call (Attr (Attr (Name ''tune'') ''search'') ''ConcurrencyLimiter'')
             [Name ''algo'', Kw ''max_concurrent'' (IntLit 4)])]),
      (''adb807bc'',
       [Assign (Name ''num_samples'') (IntLit 1000)]),
      (''191c7f89'',
       [Assign (Name ''num_samples'') (IntLit 10)]),
      (''8829ffc5'',
       [Assign (Name ''search_config'')
          (DictE
             [Item (StrLit ''steps'') (IntLit 100),
              Item (StrLit ''width'')
                (Call (Attr (Name ''tune'') ''uniform'') [IntLit 0, IntLit 20]),
              Item (StrLit ''height'')
                (Call (Attr (Name ''tune'') ''uniform'') [Neg (IntLit 100), IntLit 100]),
              Item (StrLit ''activation'')
                (Call (Attr (Name ''tune'') ''choice'') [ListE [StrLit ''relu, tanh'']])])]),
      (''769f4368'',
       [Assign (Name ''analysis'')
          (Call (Attr (Name ''tune'') ''run'')
             [Name ''objective'',
              Kw ''search_alg'' (Name ''algo''),
              Kw ''metric'' (StrLit ''mean_loss''),
              Kw ''mode'' (StrLit ''min''),
              Kw ''name'' (StrLit ''nevergrad_exp''),
              Kw ''num_samples'' (Name ''num_samples''),
              Kw ''config'' (Name ''search_config'')])]),
      (''0f021674'',
       [Expr
          (Call (Name ''print'')
             [StrLit ''Best hyperparameters found were: '',
              Attr (Name ''analysis'') ''best_config''])]),
      (''89ae7455'',
       [Assign (Name ''space'')
          (Call (Attr (Attr (Name ''ng'') ''p'') ''Dict'')
             [Kw ''width''
                (Call (Attr (Attr (Name ''ng'') ''p'') ''Scalar'')
                   [Kw ''lower'' (IntLit 0), Kw ''upper'' (IntLit 20)]),
              Kw ''height''
                (Call (Attr (Attr (Name ''ng'') ''p'') ''Scalar'')
                   [Kw ''lower'' (Neg (IntLit 100)), Kw ''upper'' (IntLit 100)]),
              Kw ''activation''
                (Call (Attr (Attr (Name ''ng'') ''p'') ''Choice'')
                   [Kw ''choices'' (ListE [StrLit ''relu'', StrLit ''tanh''])])])]),
      (''e52eeab1'',
       [Assign (Name ''algo'')
          (Call (Name ''NevergradSearch'')
             [Kw ''optimizer'' (Attr (Attr (Name ''ng'') ''optimizers'') ''OnePlusOne''),
              Kw ''space'' (Name ''space''),
              Kw ''metric'' (StrLit ''mean_loss''),
              Kw ''mode'' (StrLit ''min'')]),
        Assign (Name ''algo'')
          (Call (Attr (Attr (Name ''tune'') ''search'') ''ConcurrencyLimiter'')
             [Name ''algo'', Kw ''max_concurrent'' (IntLit 4)])]),
      (''64f39800'',
       [Assign (Name ''analysis'')
          (Call (Attr (Name ''tune'') ''run'')
             [Name ''objective'',
              Kw ''search_alg'' (Name ''algo''),
              Kw ''name'' (StrLit ''nevergrad_exp''),
              Kw ''num_samples'' (Name ''num_samples''),
              Kw ''config'' (DictE [Item (StrLit ''steps'') (IntLit 100)])])]),
      (''0478c1ea'',
       [Expr (Call (Attr (Name ''ray'') ''shutdown'') [])])]"

definition sigopt_notebook :: "(string \<times> stmt list) list" where
  "sigopt_notebook =
     [(''6e1d6d8a'',
       [Shell ''pip install sigopt==7.5.0'']),
      (''152fce99'',
       [Import ''time'' None,
        Import ''os'' None,
        Import ''ray'' None,
        Import ''numpy'' (Some ''np''),
        FromImport ''ray'' ''tune'',
        FromImport ''ray.air'' ''session'',
        FromImport ''ray.tune.search.sigopt'' ''SigOptSearch'',
        If (Compare (StrLit ''SIGOPT_KEY'') ''not in'' (Attr (Name ''os'') ''environ''))
          [Raise
             (Call (Name ''ValueError'')
                [StrLit ''SigOpt API Key not found. Please set the SIGOPT_KEY environment variable.''])]
          []]),
      (''2f9f7650'',
       [Def ''evaluate'' [''step'', ''width'', ''height'', ''activation'']
          [Expr (Call (Attr (Name ''time'') ''sleep'') [FloatLit 0.1]),
           Assign (Name ''activation_boost'')
             (IfExp (IntLit 10) (Compare (Name ''activation'') ''=='' (StrLit ''relu''))
                (IntLit 1)),
           Return
             (BinOp
                (BinOp
                   (BinOp
                      (BinOp (FloatLit 0.1) ''+''
                         (BinOp (BinOp (Name ''width'') ''*'' (Name ''step'')) ''/''
                            (IntLit 100)))
                      ''**''
                      (Neg (IntLit 1)))
                   ''+''
                   (BinOp (Name ''height'') ''*'' (FloatLit 0.1)))
                ''+''
                (Name ''activation_boost''))]]),
      (''7284f24a'',
       [Def ''objective'' [''config'']
          [For [''step'']
             (Call (Name ''range'') [Subscript (Name ''config'') (StrLit ''steps'')])
             [Assign (Name ''score'')
                (Call (Name ''evaluate'')
                   [Name ''step'',
                    Subscript (Name ''config'') (StrLit ''width''),
                    Subscript (Name ''config'') (StrLit ''height''),
                    Subscript (Name ''config'') (StrLit ''activation'')]),
              Expr
                (Call (Attr (Name ''session'') ''report'')
                   [DictE
                      [Item (StrLit ''iterations'') (Name ''step''),
                       Item (StrLit ''mean_loss'') (Name ''score'')]])]]]),
      (''394c722e'',
       [Expr (Call (Attr (Name ''ray'') ''init'') [Kw ''configure_logging'' (BoolLit False)])]),
      (''57dbed8d'',
       []),
      (''7f542011'',
       [Assign (Name ''space'')
          (ListE
             [DictE
                [Item (StrLit ''name'') (StrLit ''width''),
                 Item (StrLit ''type'') (StrLit ''int''),
                 Item (StrLit ''bounds'')
                   (DictE [Item (StrLit ''min'') (IntLit 0), Item (StrLit ''max'') (IntLit 20)])],
              DictE
                [Item (StrLit ''name'') (StrLit ''height''),
                 Item (StrLit ''type'') (StrLit ''int''),
                 Item (StrLit ''bounds'')
                   (DictE
                      [Item (StrLit ''min'') (Neg (IntLit 100)),
                       Item (StrLit ''max'') (IntLit 100)])],
              DictE
                [Item (StrLit ''name'') (StrLit ''activation''),
                 Item (StrLit ''type'') (StrLit ''categorical''),
                 Item (StrLit ''categorical_values'') (ListE [StrLit ''relu'', StrLit ''tanh''])]])]),
      (''a9737339'',
       [Assign (Name ''algo'')
          (Call (Name ''SigOptSearch'')
             [Name ''space'',
              Kw ''name'' (StrLit ''SigOpt Example Experiment''),
              Kw ''max_concurrent'' (IntLit 1),
              Kw ''metric'' (StrLit ''mean_loss''),
              Kw ''mode'' (StrLit ''min'')])]),
      (''38991a3c'',
       [Assign (Name ''num_samples'') (IntLit 10)]),
      (''a2b6d066'',
       [Assign (Name ''analysis'')
          (Call (Attr (Name ''tune'') ''run'')
             [Name ''objective'',
              Kw ''name'' (StrLit ''sigopt_exp''),
              Kw ''search_alg'' (Name ''algo''),
              Kw ''num_samples'' (Name ''num_samples''),
              Kw ''metric'' (StrLit ''mean_loss''),
              Kw ''mode'' (StrLit ''min''),
              Kw ''config'' (DictE [Item (StrLit ''steps'') (IntLit 100)])])]),
      (''3567e642'',
       [Expr
          (Call (Name ''print'')
             [StrLit ''Best hyperparameters found were: '',
              Attr (Name ''analysis'') ''best_config''])]),
      (''8e13db27'',
       [Expr (Call (Attr (Attr (Name ''np'') ''random'') ''seed'') [IntLit 0]),
        Assign (Name ''vector1'')
          (Call (Attr (Attr (Name ''np'') ''random'') ''normal'')
             [IntLit 0, FloatLit 0.1, IntLit 100]),
        Assign (Name ''vector2'')
          (Call (Attr (Attr (Name ''np'') ''random'') ''normal'')
             [IntLit 0, FloatLit 0.1, IntLit 100]),
        Def ''evaluate'' [''w1'', ''w2'']
          [Assign (Name ''total'')
             (BinOp (BinOp (Name ''w1'') ''*'' (Name ''vector1'')) ''+''
                (BinOp (Name ''w2'') ''*'' (Name ''vector2''))),
           Return
             (TupleE
                [Call (Attr (Name ''total'') ''mean'') [],
                 Call (Attr (Name ''total'') ''std'') []])],
        Def ''multi_objective'' [''config'']
          [Assign (Name ''w1'') (Subscript (Name ''config'') (StrLit ''w1'')),
           Assign (Name ''w2'')
             (BinOp (Subscript (Name ''config'') (StrLit ''total_weight'')) ''-'' (Name ''w1'')),
           Assign (TupleE [Name ''average'', Name ''std''])
             (Call (Name ''evaluate'') [Name ''w1'', Name ''w2'']),
           Expr
             (Call (Attr (Name ''session'') ''report'')
                [DictE
                   [Item (StrLit ''average'') (Name ''average''),
                    Item (StrLit ''std'') (Name ''std''),
                    Item (StrLit ''sharpe'') (BinOp (Name ''average'') ''/'' (Name ''std''))]]),
           Expr (Call (Attr (Name ''time'') ''sleep'') [FloatLit 0.1])]]),
      (''47ed922c'',
       [Assign (Name ''space'')
          (ListE
             [DictE
                [Item (StrLit ''name'') (StrLit ''w1''),
                 Item (StrLit ''type'') (StrLit ''double''),
                 Item (StrLit ''bounds'')
                   (DictE [Item (StrLit ''min'') (IntLit 0), Item (StrLit ''max'') (IntLit 1)])]]),
        Assign (Name ''algo'')
          (Call (Name ''SigOptSearch'')
             [Name ''space'',
              Kw ''name'' (StrLit ''sigopt_multiobj_exp''),
              Kw ''observation_budget'' (Name ''num_samples''),
              Kw ''max_concurrent'' (IntLit 1),
              Kw ''metric'' (ListE [StrLit ''average'', StrLit ''std'', StrLit ''sharpe'']),
              Kw ''mode'' (ListE [StrLit ''max'', StrLit ''min'', StrLit ''obs''])])]),
      (''de17bd46'',
       [Assign (Name ''analysis'')
          (Call (Attr (Name ''tune'') ''run'')
             [Name ''multi_objective'',
              Kw ''name'' (StrLit ''sigopt_multiobj_exp''),
              Kw ''search_alg'' (Name ''algo''),
              Kw ''num_samples'' (Name ''num_samples''),
              Kw ''config'' (DictE [Item (StrLit ''total_weight'') (IntLit 1)])])]),
      (''fcd606dd'',
       [Expr
          (Call (Name ''print'')
             [StrLit ''Best hyperparameters found were: '',
              Call (Attr (Name ''analysis'') ''get_best_config'')
                [StrLit ''average'', StrLit ''min'']])]),
      (''870dfb0d'',
       [Expr (Call (Attr (Attr (Name ''np'') ''random'') ''seed'') [IntLit 0]),
        Assign (Name ''vector1'')
          (Call (Attr (Attr (Name ''np'') ''random'') ''normal'')
             [FloatLit 0.0, FloatLit 0.1, IntLit 100]),
        Assign (Name ''vector2'')
          (Call (Attr (Attr (Name ''np'') ''random'') ''normal'')
             [FloatLit 0.0, FloatLit 0.1, IntLit 100]),
        Assign (Name ''vector3'')
          (Call (Attr (Attr (Name ''np'') ''random'') ''normal'')
             [FloatLit 0.0, FloatLit 0.1, IntLit 100]),
        Def ''evaluate'' [''w1'', ''w2'', ''w3'']
          [Assign (Name ''total'')
             (BinOp
                (BinOp (BinOp (Name ''w1'') ''*'' (Name ''vector1'')) ''+''
                   (BinOp (Name ''w2'') ''*'' (Name ''vector2'')))
                ''+''
                (BinOp (Name ''w3'') ''*'' (Name ''vector3''))),
           Return
             (TupleE
                [Call (Attr (Name ''total'') ''mean'') [],
                 Call (Attr (Name ''total'') ''std'') []])],
        Def ''multi_objective_two'' [''config'']
          [Assign (Name ''w1'') (Subscript (Name ''config'') (StrLit ''w1'')),
           Assign (Name ''w2'') (Subscript (Name ''config'') (StrLit ''w2'')),
           Assign (Name ''total'') (BinOp (Name ''w1'') ''+'' (Name ''w2'')),
           If (Compare (Name ''total'') ''>'' (IntLit 1))
             [Assign (Name ''w3'') (IntLit 0),
              AugAssign (Name ''w1'') ''/'' (Name ''total''),
              AugAssign (Name ''w2'') ''/'' (Name ''total'')]
             [Assign (Name ''w3'') (BinOp (IntLit 1) ''-'' (Name ''total''))],
           Assign (TupleE [Name ''average'', Name ''std''])
             (Call (Name ''evaluate'') [Name ''w1'', Name ''w2'', Name ''w3'']),
           Expr
             (Call (Attr (Name ''session'') ''report'')
                [DictE
                   [Item (StrLit ''average'') (Name ''average''),
                    Item (StrLit ''std'') (Name ''std'')]])]]),
      (''fa992019'',
       [Assign (Name ''samples'') (Name ''num_samples''),
        Assign (Name ''conn'')
          (Call (Name ''Connection'')
             [Kw ''client_token''
                (Subscript (Attr (Name ''os'') ''environ'') (StrLit ''SIGOPT_KEY''))]),
        Assign (Name ''experiment'')
          (Call (Attr (Call (Attr (Name ''conn'') ''experiments'') []) ''create'')
             [Kw ''name'' (StrLit ''prior experiment example''),
              Kw ''parameters''
                (ListE
                   [DictE
                      [Item (StrLit ''name'') (StrLit ''w1''),
                       Item (StrLit ''bounds'')
                         (DictE
                            [Item (StrLit ''max'') (IntLit 1), Item (StrLit ''min'') (IntLit 0)]),
                       Item (StrLit ''prior'')
                         (DictE
                            [Item (StrLit ''mean'') (BinOp (IntLit 1) ''/'' (IntLit 3)),
                             Item (StrLit ''name'') (StrLit ''normal''),
                             Item (StrLit ''scale'') (FloatLit 0.2)]),
                       Item (StrLit ''type'') (StrLit ''double'')],
                    DictE
                      [Item (StrLit ''name'') (StrLit ''w2''),
                       Item (StrLit ''bounds'')
                         (DictE
                            [Item (StrLit ''max'') (IntLit 1), Item (StrLit ''min'') (IntLit 0)]),
                       Item (StrLit ''prior'')
                         (DictE
                            [Item (StrLit ''mean'') (BinOp (IntLit 1) ''/'' (IntLit 3)),
                             Item (StrLit ''name'') (StrLit ''normal''),
                             Item (StrLit ''scale'') (FloatLit 0.2)]),
                       Item (StrLit ''type'') (StrLit ''double'')]]),
              Kw ''metrics''
                (ListE
                   [Call (Name ''dict'')
                      [Kw ''name'' (StrLit ''std''),
                       Kw ''objective'' (StrLit ''minimize''),
                       Kw ''strategy'' (StrLit ''optimize'')],
                    Call (Name ''dict'')
                      [Kw ''name'' (StrLit ''average''), Kw ''strategy'' (StrLit ''store'')]]),
              Kw ''observation_budget'' (Name ''samples''),
              Kw ''parallel_bandwidth'' (IntLit 1)]),
        Assign (Name ''algo'')
          (Call (Name ''SigOptSearch'')
             [Kw ''connection'' (Name ''conn''),
              Kw ''experiment_id'' (Attr (Name ''experiment'') ''id''),
              Kw ''name'' (StrLit ''sigopt_prior_multi_exp''),
              Kw ''max_concurrent'' (IntLit 1),
              Kw ''metric'' (ListE [StrLit ''average'', StrLit ''std'']),
              Kw ''mode'' (ListE [StrLit ''obs'', StrLit ''min''])])]),
      (''da778e0f'',
       [Assign (Name ''analysis'')
          (Call (Attr (Name ''tune'') ''run'')
             [Name ''objective'',
              Kw ''name'' (StrLit ''sigopt_prior_multi_exp''),
              Kw ''search_alg'' (Name ''algo''),
              Kw ''num_samples'' (Name ''samples'')])]),
      (''6b9142bc'',
       [Expr
          (Call (Name ''print'')
             [StrLit ''Best hyperparameters found were: '',
              Call (Attr (Name ''analysis'') ''get_best_config'')
                [StrLit ''average'', StrLit ''min'']])]),
      (''3e0151e1'',
       [Expr (Call (Attr (Name ''ray'') ''shutdown'') [])])]"

definition bayesopt_notebook :: "(string \<times> stmt list) list" where
  "bayesopt_notebook =
     [(''7ed16354'',
       [Shell ''pip install bayesian-optimization==1.2.0'']),
      (''6d36c78b'',
       [Import ''time'' None,
        Import ''ray'' None,
        FromImport ''ray'' ''tune'',
        FromImport ''ray.air'' ''session'',
        FromImport ''ray.tune.search'' ''ConcurrencyLimiter'',
        FromImport ''ray.tune.search.bayesopt'' ''BayesOptSearch'']),
      (''646c75a9'',
       [Def ''evaluate'' [''step'', ''width'', ''height'']
          [Expr (Call (Attr (Name ''time'') ''sleep'') [FloatLit 0.1]),
           Return
             (BinOp
                (BinOp
                   (BinOp (FloatLit 0.1) ''+''
                      (BinOp (BinOp (Name ''width'') ''*'' (Name ''step'')) ''/'' (IntLit 100)))
                   ''**''
                   (Neg (IntLit 1)))
                ''+''
                (BinOp (Name ''height'') ''*'' (FloatLit 0.1)))]]),
      (''e9adf637'',
       [Def ''objective'' [''config'']
          [For [''step'']
             (Call (Name ''range'') [Subscript (Name ''config'') (StrLit ''steps'')])
             [Assign (Name ''score'')
                (Call (Name ''evaluate'')
                   [Name ''step'',
                    Subscript (Name ''config'') (StrLit ''width''),
                    Subscript (Name ''config'') (StrLit ''height'')]),
              Expr
                (Call (Attr (Name ''session'') ''report'')
                   [DictE
                      [Item (StrLit ''iterations'') (Name ''step''),
                       Item (StrLit ''mean_loss'') (Name ''score'')]])]]]),
      (''bc634b1d'',
       [Expr (Call (Attr (Name ''ray'') ''init'') [Kw ''configure_logging'' (BoolLit False)])]),
      (''6f1d2fe7'',
       [Assign (Name ''algo'')
          (Call (Name ''BayesOptSearch'')
             [Kw ''utility_kwargs''
                (DictE
                   [Item (StrLit ''kind'') (StrLit ''ucb''),
                    Item (StrLit ''kappa'') (FloatLit 2.5),
                    Item (StrLit ''xi'') (FloatLit 0.0)])]),
        Assign (Name ''algo'')
          (Call (Name ''ConcurrencyLimiter'') [Name ''algo'', Kw ''max_concurrent'' (IntLit 4)])]),
      (''d777201c'',
       [Assign (Name ''num_samples'') (IntLit 1000)]),
      (''bb5f39a6'',
       [Assign (Name ''num_samples'') (IntLit 10)]),
      (''116f8757'',
       [Assign (Name ''search_space'')
          (DictE
             [Item (StrLit ''steps'') (IntLit 100),
              Item (StrLit ''width'')
                (Call (Attr (Name ''tune'') ''uniform'') [IntLit 0, IntLit 20]),
              Item (StrLit ''height'')
                (Call (Attr (Name ''tune'') ''uniform'') [Neg (IntLit 100), IntLit 100])])]),
      (''5c44a0c5'',
       [Assign (Name ''analysis'')
          (Call (Attr (Name ''tune'') ''run'')
             [Name ''objective'',
              Kw ''search_alg'' (Name ''algo''),
              Kw ''metric'' (StrLit ''mean_loss''),
              Kw ''mode'' (StrLit ''min''),
              Kw ''name'' (StrLit ''bayesopt_exp''),
              Kw ''num_samples'' (Name ''num_samples''),
              Kw ''config'' (Name ''search_space'')])]),
      (''3488aefa'',
       [Expr
          (Call (Name ''print'')
             [StrLit ''Best hyperparameters found were: '',
              Attr (Name ''analysis'') ''best_config''])]),
      (''2936353a'',
       [Expr (Call (Attr (Name ''ray'') ''shutdown'') [])])]"

definition nyc_taxi_notebook :: "(string \<times> stmt list) list" where
  "nyc_taxi_notebook =
     [(''ed5b22a4'',
       [Import ''warnings'' None,
        Import ''os'' None,
        Expr (Call (Attr (Name ''warnings'') ''filterwarnings'') [StrLit ''ignore'']),
        Assign (Subscript (Attr (Name ''os'') ''environ'') (StrLit ''PYTHONWARNINGS''))
          (StrLit ''ignore'')]),
      (''366de039'',
       [Import ''ray'' None, Expr (Call (Attr (Name ''ray'') ''init'') [])]),
      (''269da3de'',
       [Assign (Name ''ds'')
          (Call (Attr (Attr (Name ''ray'') ''data'') ''read_parquet'')
             [ListE
                [StrLit ''s3://ursa-labs-taxi-data/2009/01/data.parquet'',
                 StrLit ''s3://ursa-labs-taxi-data/2009/02/data.parquet'']])]),
      (''c6c2f47d'',
       [Expr (Call (Attr (Name ''ds'') ''schema'') [])]),
      (''5812dacf'',
       [Expr (Call (Attr (Name ''ds'') ''count'') [])]),
      (''63894b9c'',
       [Expr (Name ''ds'')]),
      (''6e653e63'',
       [Expr (Call (Attr (Name ''ds'') ''take'') [IntLit 1])]),
      (''7f0b8702'',
       [Expr (Call (Attr (Name ''ds'') ''size_bytes'') [])]),
      (''f2d46bfa'',
       [Expr (Call (Attr (Call (Attr (Name ''ds'') ''fully_executed'') []) ''size_bytes'') [])]),
      (''9cc641b3'',
       [Assign (Name ''year_ds'')
          (Call (Attr (Attr (Name ''ray'') ''data'') ''read_parquet'')
             [StrLit ''s3://ursa-labs-taxi-data/2009''])]),
      (''6383b4a2'',
       [Expr (Name ''year_ds'')]),
      (''9703a5dd'',
       [Del ''year_ds'']),
      (''8a403bb4'',
       [Expr
          (Call (Attr (Name ''ds'') ''max'')
             [ListE
                [StrLit ''trip_distance'', StrLit ''tip_amount'', StrLit ''passenger_count'']])]),
      (''fa539237'',
       [Expr
          (Call
             (Attr
                (Call (Attr (Name ''ds'') ''map_batches'')
                   [Lambda [''df'']
                      (Subscript (Name ''df'')
                         (Compare (Subscript (Name ''df'') (StrLit ''passenger_count'')) ''>''
                            (IntLit 10)))])
                ''take'')
             [])]),
      (''b9fb839a'',
       [Assign (Name ''ds'')
          (Call (Attr (Name ''ds'') ''map_batches'')
             [Lambda [''df'']
                (Subscript (Name ''df'')
                   (Compare (Subscript (Name ''df'') (StrLit ''passenger_count'')) ''<=''
                      (IntLit 10)))])]),
      (''67f9565b'',
       [Assign (Name ''ds'')
          (Call (Attr (Name ''ds'') ''drop_columns'')
             [ListE [StrLit ''store_and_fwd_flag'', StrLit ''mta_tax'']])]),
      (''9f2de4f5'',
       [Expr
          (Call
             (Attr
                (Call
                   (Attr (Call (Attr (Name ''ds'') ''groupby'') [StrLit ''passenger_count''])
                      ''count'')
                   [])
                ''take'')
             [])]),
      (''3a0a9567'',
       [Assign (Name ''ds'')
          (Call (Attr (Name ''ds'') ''map_batches'')
             [Lambda [''df'']
                (Subscript (Name ''df'')
                   (Compare (Subscript (Name ''df'') (StrLit ''passenger_count'')) ''>''
                      (IntLit 0)))])]),
      (''baa016b7'',
       [Import ''pyarrow'' (Some ''pa''),
        Assign (Name ''filter_expr'')
          (BinOp
             (Compare
                (Call (Attr (Attr (Name ''pa'') ''dataset'') ''field'')
                   [StrLit ''passenger_count''])
                ''<=''
                (IntLit 10))
             ''&''
             (Compare
                (Call (Attr (Attr (Name ''pa'') ''dataset'') ''field'')
                   [StrLit ''passenger_count''])
                ''>''
                (IntLit 0))),
        Assign (Name ''pushdown_ds'')
          (Call (Attr (Attr (Name ''ray'') ''data'') ''read_parquet'')
             [ListE
                [StrLit ''s3://ursa-labs-taxi-data/2009/01/data.parquet'',
                 StrLit ''s3://ursa-labs-taxi-data/2009/02/data.parquet''],
              Kw ''columns'' (ListE [StrLit ''passenger_count'', StrLit ''trip_distance'']),
              Kw ''filter'' (Name ''filter_expr'')]),
        Assign (Name ''pushdown_ds'') (Call (Attr (Name ''pushdown_ds'') ''fully_executed'') []),
        Expr (Name ''pushdown_ds'')]),
      (''d1847d7d'',
       [Del ''pushdown_ds'']),
      (''245a8a97'',
       [Expr
          (Call
             (Attr
                (Call
                   (Attr (Call (Attr (Name ''ds'') ''groupby'') [StrLit ''passenger_count''])
                      ''mean'')
                   [StrLit ''trip_distance''])
                ''take'')
             [])]),
      (''643acc6f'',
       [Assign (Name ''ds'') (Call (Attr (Name ''ds'') ''random_shuffle'') [])]),
      (''c192e4d7'',
       [ClassDef [Attr (Name ''ray'') ''remote''] ''Trainer''
          [Def ''__init__'' [''self'', ''rank''] [Pass],
           Def ''train'' [''self'', ''shard'']
             [For [''batch'']
                (Call (Attr (Name ''shard'') ''iter_batches'') [Kw ''batch_size'' (IntLit 256)])
                [Pass],
              Return (Call (Attr (Name ''shard'') ''count'') [])]],
        Assign (Name ''trainers'')
          (ListComp (Call (Attr (Name ''Trainer'') ''remote'') [Name ''i'']) [''i'']
             (Call (Name ''range'') [IntLit 4])),
        Expr (Name ''trainers'')]),
      (''d175439a'',
       [Assign (Name ''shards'')
          (Call (Attr (Name ''ds'') ''split'')
             [Kw ''n'' (Call (Name ''len'') [Name ''trainers'']), Kw ''equal'' (BoolLit True)]),
        Expr (Name ''shards'')]),
      (''d60d0e0d'',
       [Expr
          (Call (Attr (Name ''ray'') ''get'')
             [ListComp (Call (Attr (Attr (Name ''w'') ''train'') ''remote'') [Name ''s''])
                [''w'', ''s'']
                (Call (Name ''zip'') [Name ''trainers'', Name ''shards''])])]),
      (''b1ae3f38'',
       [Del ''trainers'']),
      (''de681909'',
       [Import ''pandas'' (Some ''pd''),
        Def ''load_model'' []
          [Def ''model'' [''batch'']
             [Return
                (Call (Attr (Name ''pd'') ''DataFrame'')
                   [DictE
                      [Item (StrLit ''score'')
                         (Compare
                            (BinOp (Subscript (Name ''batch'') (StrLit ''passenger_count''))
                               ''%''
                               (IntLit 2))
                            ''==''
                            (IntLit 0))]])],
           Return (Name ''model'')],
        ClassDef [] ''BatchInferModel''
          [Def ''__init__'' [''self'']
             [Assign (Attr (Name ''self'') ''model'') (Call (Name ''load_model'') [])],
           Def ''__call__'' [''self'', ''batch'']
             [Return (Call (Attr (Name ''self'') ''model'') [Name ''batch''])]]]),
      (''04fac86d'',
       [Expr
          (Call
             (Attr
                (Call (Attr (Name ''ds'') ''map_batches'')
                   [Name ''BatchInferModel'',
                    Kw ''batch_size'' (IntLit 2048),
                    Kw ''compute'' (StrLit ''actors'')])
                ''take'')
             [])]),
      (''0c7365b7'',
       [Expr
          (Call
             (Attr
                (Call (Attr (Name ''ds'') ''map_batches'')
                   [Name ''BatchInferModel'',
                    Kw ''batch_size'' (IntLit 256),
                    Kw ''compute'' (StrLit ''actors'')])
                ''take'')
             [])]),
      (''c382fc0a'',
       [FromImport ''ray.data'' ''ActorPoolStrategy'',
        Assign (Name ''strategy'')
          (Call (Name ''ActorPoolStrategy'')
             [Kw ''min_size'' (IntLit 2), Kw ''max_size'' (IntLit 8)]),
        Expr
          (Call
             (Attr
                (Call (Attr (Name ''ds'') ''map_batches'')
                   [Name ''BatchInferModel'',
                    Kw ''batch_size'' (IntLit 256),
                    Kw ''compute'' (Name ''strategy'')])
                ''take'')
             [])]),
      (''a0db5ba1'',
       [])]"

definition all_cells :: "(string \<times> stmt list) list" where
  "all_cells = nevergrad_notebook @ sigopt_notebook @ bayesopt_notebook @ nyc_taxi_notebook"

subsection \<open>Notation for dataset values\<close>

text \<open>
  \<open>invoke v m args\<close> is the call \<open>v.m(args)\<close> on a library value. \<open>taxi_ds\<close> is the chain
  of dataset calls the data notebook builds: \<open>read_parquet\<close> of the two files, the filter
  \<open>passenger_count <= 10\<close>, \<open>drop_columns\<close>, the filter \<open>passenger_count > 0\<close>, and
  \<open>random_shuffle\<close>. \<open>taxi_shards\<close> is its split.
\<close>

abbreviation invoke :: "sval \<Rightarrow> string \<Rightarrow> sval list \<Rightarrow> sval" where
  "invoke v m args \<equiv> VCall (VAttr v m) args"

abbreviation taxi_files :: sval where
  "taxi_files \<equiv>
     VList [VStr ''s3://ursa-labs-taxi-data/2009/01/data.parquet'',
            VStr ''s3://ursa-labs-taxi-data/2009/02/data.parquet'']"

abbreviation passenger_count_filter :: "string \<Rightarrow> int \<Rightarrow> sval" where
  "passenger_count_filter op n \<equiv>
     VLambda [''df'']
       (Subscript (Name ''df'')
          (Compare (Subscript (Name ''df'') (StrLit ''passenger_count'')) op (IntLit n)))"

abbreviation taxi_ds :: sval where
  "taxi_ds \<equiv>
     invoke
       (invoke
          (invoke
             (invoke (VCall (VLib ''ray.data.read_parquet'') [taxi_files])
                ''map_batches'' [passenger_count_filter ''<='' 10])
             ''drop_columns'' [VList [VStr ''store_and_fwd_flag'', VStr ''mta_tax'']])
          ''map_batches'' [passenger_count_filter ''>'' 0])
       ''random_shuffle'' []"

abbreviation taxi_shards :: sval where
  "taxi_shards \<equiv> invoke taxi_ds ''split'' [VKw ''n'' (VInt 4), VKw ''equal'' (VBool True)]"

section \<open>Properties of the objective\<close>

lemma base_ge: "0 \<le> step \<Longrightarrow> 0 \<le> width \<Longrightarrow> (0.1::real) \<le> 0.1 + width * step / 100"
  by simp

lemma evaluate_nonneg:
  assumes "0 \<le> step" and "0 \<le> width"
  shows "evaluate step width height activation =
           Inr ((0.1 + width * step / 100) powi (- 1) + height * 0.1
                + activation_boost activation)"
proof -
  have "(0.1::real) \<le> 0.1 + width * step / 100"
    using assms by (rule base_ge)
  then have "0.1 + width * step / 100 \<noteq> 0" by linarith
  then show ?thesis by (simp add: evaluate_def)
qed

lemma objective_loop_ok:
  assumes w: "config ''width'' = Some (PFloat w)"
      and h: "config ''height'' = Some (PFloat h)"
      and a: "config ''activation'' = Some a"
      and w0: "0 \<le> w"
  shows "list_all (\<lambda>step. 0 \<le> step) steps \<Longrightarrow>
         objective_loop config steps =
           Inr (map (\<lambda>step. \<lparr>iterations = step,
                  mean_loss = (0.1 + w * real_of_int step / 100) powi (- 1) + h * 0.1
                              + activation_boost a\<rparr>) steps)"
proof (induction steps)
  case Nil
  then show ?case by simp
next
  case (Cons step steps)
  from Cons.prems have s0: "0 \<le> real_of_int step" by simp
  have "objective_step config step =
          Inr \<lparr>iterations = step,
               mean_loss = (0.1 + w * real_of_int step / 100) powi (- 1) + h * 0.1
                           + activation_boost a\<rparr>"
    by (simp add: objective_step_def getitem_def w h a evaluate_nonneg [OF s0 w0])
  with Cons show ?case by simp
qed

text \<open>
  C8. The evaluate function of the tuning notebooks is total on its search domain: for
  every step >= 0 and width >= 0, and any height and activation, the base
  0.1 + width * step / 100 is at least 0.1, hence nonzero, and evaluate returns a value
  instead of dividing by zero. This holds for the four-argument evaluate of the Nevergrad
  and SigOpt notebooks and for the three-argument evaluate of the BayesOpt notebook.
\<close>

theorem evaluate_total_on_search_domain:
  assumes "0 \<le> step" and "0 \<le> width"
  shows "0.1 \<le> 0.1 + width * step / 100
       \<and> 0.1 + width * step / 100 \<noteq> 0
       \<and> evaluate step width height activation \<noteq> Inl ZeroDivisionError
       \<and> (\<exists>y. evaluate step width height activation = Inr y)
       \<and> bayesopt_evaluate step width height \<noteq> Inl ZeroDivisionError
       \<and> (\<exists>y. bayesopt_evaluate step width height = Inr y)"
proof -
  have b: "0.1 \<le> 0.1 + width * step / 100"
    using assms by (rule base_ge)
  then have nz: "0.1 + width * step / 100 \<noteq> 0" by linarith
  from b nz show ?thesis
    by (simp add: evaluate_def bayesopt_evaluate_def)
qed

theorem evaluate_total_on_search_domain_witness:
  "(0::real) \<le> 99 \<and> (0::real) \<le> 20
   \<and> evaluate 99 20 (- 100) (PStr ''relu'') \<noteq> Inl ZeroDivisionError
   \<and> bayesopt_evaluate 99 20 (- 100) \<noteq> Inl ZeroDivisionError"
  using evaluate_total_on_search_domain [of 99 20 "- 100" "PStr ''relu''"]
  by simp

text \<open>
  C6. In the Nevergrad notebook, search_config defines activation as tune.choice over the
  single string "relu, tanh". Every configuration sampled from search_config therefore
  has the activation "relu, tanh", which differs from "relu": activation_boost is 1,
  never 10, evaluate returns (0.1 + width * step / 100)^(-1) + height * 0.1 + 1 at every
  step, and objective reports exactly these values for the steps 0..99.
\<close>

theorem search_config_relu_unreachable:
  assumes "sampled_from search_config config"
  shows "\<exists>w h. config ''width'' = Some (PFloat w) \<and> config ''height'' = Some (PFloat h)
           \<and> config ''activation'' = Some (PStr ''relu, tanh'')
           \<and> PStr ''relu, tanh'' \<noteq> PStr ''relu''
           \<and> activation_boost (PStr ''relu, tanh'') = 1
           \<and> activation_boost (PStr ''relu, tanh'') \<noteq> 10
           \<and> (\<forall>step. 0 \<le> step \<longrightarrow>
                 evaluate step w h (PStr ''relu, tanh'') =
                   Inr ((0.1 + w * step / 100) powi (- 1) + h * 0.1 + 1))
           \<and> objective config =
                 Inr (map (\<lambda>step. \<lparr>iterations = step,
                        mean_loss = (0.1 + w * real_of_int step / 100) powi (- 1)
                                    + h * 0.1 + 1\<rparr>) [0..99])"
proof -
  from assms obtain w h
    where st: "config ''steps'' = Some (PInt 100)"
      and w: "config ''width'' = Some (PFloat w)" and wb: "0 \<le> w"
      and h: "config ''height'' = Some (PFloat h)"
      and a: "config ''activation'' = Some (PStr ''relu, tanh'')"
    by (auto simp: sampled_from_def search_config_def
             split: option.splits pyval.splits)
  have boost: "activation_boost (PStr ''relu, tanh'') = 1"
    by (simp add: activation_boost_def)
  have ev: "\<forall>step. 0 \<le> step \<longrightarrow>
              evaluate step w h (PStr ''relu, tanh'') =
                Inr ((0.1 + w * step / 100) powi (- 1) + h * 0.1 + 1)"
    using evaluate_nonneg [OF _ wb] boost by simp
  have pos: "list_all (\<lambda>step. 0 \<le> step) [0..99]"
    by (simp add: list_all_iff)
  have "objective config = objective_loop config [0..99]"
    by (simp add: objective_def getitem_def st)
  also have "\<dots> = Inr (map (\<lambda>step. \<lparr>iterations = step,
                        mean_loss = (0.1 + w * real_of_int step / 100) powi (- 1)
                                    + h * 0.1 + 1\<rparr>) [0..99])"
    using objective_loop_ok [OF w h a wb pos] boost by simp
  finally show ?thesis
    using w h a boost ev by simp
qed

theorem search_config_relu_unreachable_witness:
  "sampled_from search_config
     [''steps'' \<mapsto> PInt 100, ''width'' \<mapsto> PFloat 5, ''height'' \<mapsto> PFloat 2,
      ''activation'' \<mapsto> PStr ''relu, tanh'']
   \<and> evaluate 10 5 2 (PStr ''relu, tanh'') = Inr (43 / 15)"
proof -
  let ?config = "[''steps'' \<mapsto> PInt 100, ''width'' \<mapsto> PFloat 5, ''height'' \<mapsto> PFloat 2,
      ''activation'' \<mapsto> PStr ''relu, tanh'']"
  have s: "sampled_from search_config ?config"
    by (simp add: sampled_from_def search_config_def)
  from search_config_relu_unreachable [OF s]
  have "evaluate 10 5 2 (PStr ''relu, tanh'') =
          Inr ((0.1 + 5 * 10 / 100) powi (- 1) + 2 * 0.1 + 1)"
    by simp
  then show ?thesis using s by simp
qed

section \<open>Properties of the experiment file\<close>

lemma run_env_deterministic:
  "list_all (\<lambda>d. 0 \<le> d) draws \<Longrightarrow> t < n \<Longrightarrow>
   run_env 0 n t draws = (if n - t \<le> length draws then Some n else None)"
proof (induction draws arbitrary: t)
  case Nil
  then show ?case by simp
next
  case (Cons d draws)
  from Cons.prems have d0: "\<not> d < 0" and rest: "list_all (\<lambda>d. 0 \<le> d) draws"
    by simp_all
  show ?case
  proof (cases "Suc t = n")
    case True
    then show ?thesis by (simp add: crashes_def)
  next
    case False
    with Cons.prems have lt: "Suc t < n" by simp
    from False d0 have "run_env 0 n t (d # draws) = run_env 0 n (Suc t) draws"
      by (simp add: crashes_def)
    also have "\<dots> = (if n - Suc t \<le> length draws then Some n else None)"
      using Cons.IH [OF rest lt] .
    also have "\<dots> = (if n - t \<le> length (d # draws) then Some n else None)"
      using lt by auto
    finally show ?thesis .
  qed
qed

lemma cartpole_crash_parameters:
  "cartpole_experiment [''config'', ''env_config'', ''config'', ''p_crash''] = Some (YFloat 0)"
  "cartpole_experiment [''config'', ''env_config'', ''config'', ''crash_after_n_steps''] = Some (YInt 60)"
  by (simp_all add: cartpole_experiment_def cartpole_crashing_yaml_def)

text \<open>
  C2. The YAML file configures a reinforcement-learning training job: algorithm PG of the
  external training framework, on the environment CartPoleCrashing. The failure injection
  is deterministic rather than probabilistic: p_crash is 0.0 and crash_after_n_steps is
  60, so whatever the random draws, no step before the 60th crashes a sub-environment and
  the 60th does. Fault tolerance is delegated to the framework with
  restart_failed_sub_environments: true.
\<close>

theorem cartpole_crashing_deterministic_injection:
  "cartpole_experiment [''run''] = Some (YStr ''PG'')
   \<and> cartpole_experiment [''env''] =
       Some (YStr ''ray.rllib.examples.env.cartpole_crashing.CartPoleCrashing'')
   \<and> cartpole_experiment [''config'', ''framework''] = Some (YStr ''tf'')
   \<and> cartpole_experiment [''config'', ''env_config'', ''config'', ''p_crash''] = Some (YFloat 0)
   \<and> cartpole_experiment [''config'', ''env_config'', ''config'', ''crash_after_n_steps'']
       = Some (YInt 60)
   \<and> cartpole_experiment [''config'', ''restart_failed_sub_environments''] = Some (YBool True)
   \<and> (\<forall>draw timesteps. 0 \<le> draw \<longrightarrow> crashes 0 60 draw timesteps = (timesteps = 60))
   \<and> (\<forall>draws. list_all (\<lambda>d. 0 \<le> d) draws \<longrightarrow>
         sub_environment_crash draws = Some (if 60 \<le> length draws then Some 60 else None))"
proof -
  have det: "\<forall>draws. list_all (\<lambda>d. 0 \<le> d) draws \<longrightarrow>
         sub_environment_crash draws = Some (if 60 \<le> length draws then Some 60 else None)"
  proof (intro allI impI)
    fix draws :: "real list"
    assume pos: "list_all (\<lambda>d. 0 \<le> d) draws"
    have "sub_environment_crash draws = Some (run_env 0 60 0 draws)"
      by (simp add: sub_environment_crash_def cartpole_crash_parameters)
    with run_env_deterministic [OF pos, of 0 60]
    show "sub_environment_crash draws = Some (if 60 \<le> length draws then Some 60 else None)"
      by simp
  qed
  have cr: "\<forall>draw timesteps. 0 \<le> draw \<longrightarrow> crashes 0 60 draw timesteps = (timesteps = 60)"
    by (auto simp: crashes_def)
  have "cartpole_experiment [''run''] = Some (YStr ''PG'')"
    by (simp add: cartpole_experiment_def cartpole_crashing_yaml_def)
  moreover have "cartpole_experiment [''env''] =
       Some (YStr ''ray.rllib.examples.env.cartpole_crashing.CartPoleCrashing'')"
    by (simp add: cartpole_experiment_def cartpole_crashing_yaml_def)
  moreover have "cartpole_experiment [''config'', ''framework''] = Some (YStr ''tf'')"
    by (simp add: cartpole_experiment_def cartpole_crashing_yaml_def)
  moreover have "cartpole_experiment [''config'', ''restart_failed_sub_environments'']
       = Some (YBool True)"
    by (simp add: cartpole_experiment_def cartpole_crashing_yaml_def)
  ultimately show ?thesis
    using cartpole_crash_parameters det cr by simp
qed

theorem cartpole_crashing_deterministic_injection_witness:
  "list_all (\<lambda>d. 0 \<le> d) (replicate 59 (1 / 2) @ [0] @ replicate 10 (9 / 10 :: real))
   \<and> sub_environment_crash (replicate 59 (1 / 2) @ [0] @ replicate 10 (9 / 10))
       = Some (Some 60)
   \<and> crashes 0 60 (1 / 2) 59 = False"
proof -
  have pos: "list_all (\<lambda>d. 0 \<le> d) (replicate 59 (1 / 2) @ [0] @ replicate 10 (9 / 10 :: real))"
    by (simp add: list_all_iff)
  from cartpole_crashing_deterministic_injection
  have "sub_environment_crash (replicate 59 (1 / 2) @ [0] @ replicate 10 (9 / 10))
          = Some (if 60 \<le> length (replicate 59 (1 / 2 :: real) @ [0] @ replicate 10 (9 / 10))
                  then Some 60 else None)"
    and "crashes 0 60 (1 / 2) 59 = False"
    using pos by simp_all
  then show ?thesis using pos by simp
qed

section \<open>Properties of the notebooks\<close>

lemmas run_simps = initial_def bind_def lookup_def builtins_def ipython_names_def call_def
  external_def returns_def exception_class_def tune_runs_def search_alg_def search_backend_def
  constructed_def search_backends_def

lemma nevergrad_run:
  "case run_each (initial env) nevergrad_notebook of (errs, s) \<Rightarrow>
     errs = []
     \<and> map callee (calls s) =
         [''ray.init'', ''ray.tune.search.nevergrad.NevergradSearch'',
          ''ray.tune.search.ConcurrencyLimiter'', ''ray.tune.uniform'', ''ray.tune.uniform'',
          ''ray.tune.choice'', ''ray.tune.run'', ''print'', ''nevergrad.p.Scalar'',
          ''nevergrad.p.Scalar'', ''nevergrad.p.Choice'', ''nevergrad.p.Dict'',
          ''ray.tune.search.nevergrad.NevergradSearch'',
          ''ray.tune.search.ConcurrencyLimiter'', ''ray.tune.run'', ''ray.shutdown'']
     \<and> map (kwarg ''optimizer'' \<circ> call_args) (constructed (calls s)) =
         [Some (VLib ''nevergrad.optimizers.OnePlusOne''),
          Some (VLib ''nevergrad.optimizers.OnePlusOne'')]
     \<and> map (map_option callee \<circ> search_alg) (tune_runs (calls s)) =
         [Some ''ray.tune.search.ConcurrencyLimiter'',
          Some ''ray.tune.search.ConcurrencyLimiter'']
     \<and> map search_backend (tune_runs (calls s)) =
         [Some ''ray.tune.search.nevergrad.NevergradSearch'',
          Some ''ray.tune.search.nevergrad.NevergradSearch'']"
  by code_simp

lemma bayesopt_run:
  "case run_each (initial env) bayesopt_notebook of (errs, s) \<Rightarrow>
     errs = []
     \<and> map callee (calls s) =
         [''ray.init'', ''ray.tune.search.bayesopt.BayesOptSearch'',
          ''ray.tune.search.ConcurrencyLimiter'', ''ray.tune.uniform'', ''ray.tune.uniform'',
          ''ray.tune.run'', ''print'', ''ray.shutdown'']
     \<and> map (map_option callee \<circ> search_alg) (tune_runs (calls s)) =
         [Some ''ray.tune.search.ConcurrencyLimiter'']
     \<and> map search_backend (tune_runs (calls s)) =
         [Some ''ray.tune.search.bayesopt.BayesOptSearch'']"
  by code_simp

lemma sigopt_run_with_key:
  "''SIGOPT_KEY'' \<in> set env \<Longrightarrow>
   (case run_each (initial env) sigopt_notebook of (errs, s) \<Rightarrow>
     errs = [(''fa992019'', NameError ''Connection'')]
     \<and> map callee (calls s) =
         [''ray.init'', ''ray.tune.search.sigopt.SigOptSearch'', ''ray.tune.run'',
          ''print'', ''numpy.random.seed'', ''numpy.random.normal'', ''numpy.random.normal'',
          ''ray.tune.search.sigopt.SigOptSearch'', ''ray.tune.run'',
          ''ray.tune.run.get_best_config'', ''print'', ''numpy.random.seed'',
          ''numpy.random.normal'', ''numpy.random.normal'', ''numpy.random.normal'',
          ''ray.tune.run'', ''ray.tune.run.get_best_config'', ''print'', ''ray.shutdown'']
     \<and> map (map_option callee \<circ> search_alg) (tune_runs (calls s)) =
         [Some ''ray.tune.search.sigopt.SigOptSearch'',
          Some ''ray.tune.search.sigopt.SigOptSearch'',
          Some ''ray.tune.search.sigopt.SigOptSearch'']
     \<and> map search_backend (tune_runs (calls s)) =
         [Some ''ray.tune.search.sigopt.SigOptSearch'',
          Some ''ray.tune.search.sigopt.SigOptSearch'',
          Some ''ray.tune.search.sigopt.SigOptSearch''])"
  by (simp add: sigopt_notebook_def run_simps)

lemma sigopt_run_without_key:
  "''SIGOPT_KEY'' \<notin> set env \<Longrightarrow>
   (case run_each (initial env) sigopt_notebook of (errs, s) \<Rightarrow>
     errs = [(''152fce99'', Raised ''ValueError''), (''fa992019'', NameError ''Connection'')]
     \<and> map callee (calls s) =
         [''ValueError'', ''ray.init'', ''ray.tune.search.sigopt.SigOptSearch'',
          ''ray.tune.run'', ''print'', ''numpy.random.seed'', ''numpy.random.normal'',
          ''numpy.random.normal'', ''ray.tune.search.sigopt.SigOptSearch'', ''ray.tune.run'',
          ''ray.tune.run.get_best_config'', ''print'', ''numpy.random.seed'',
          ''numpy.random.normal'', ''numpy.random.normal'', ''numpy.random.normal'',
          ''ray.tune.run'', ''ray.tune.run.get_best_config'', ''print'', ''ray.shutdown'']
     \<and> map (map_option callee \<circ> search_alg) (tune_runs (calls s)) =
         [Some ''ray.tune.search.sigopt.SigOptSearch'',
          Some ''ray.tune.search.sigopt.SigOptSearch'',
          Some ''ray.tune.search.sigopt.SigOptSearch'']
     \<and> map search_backend (tune_runs (calls s)) =
         [Some ''ray.tune.search.sigopt.SigOptSearch'',
          Some ''ray.tune.search.sigopt.SigOptSearch'',
          Some ''ray.tune.search.sigopt.SigOptSearch''])"
  by (simp add: sigopt_notebook_def run_simps)

lemma map_of_filter_neq:
  "map_of (filter (\<lambda>(y, _). y \<noteq> x) xs) k = (if k = x then None else map_of xs k)"
  by (induction xs) auto

lemma lookup_bind: "lookup (bind x v s) k = (if k = x then Inr v else lookup s k)"
  by (simp add: lookup_def bind_def map_of_filter_neq)

lemma connection_cell_name_error:
  "lookup s ''Connection'' = Inl (NameError ''Connection'') \<Longrightarrow>
   lookup s ''num_samples'' = Inr v \<Longrightarrow>
   fst (exec_block s (cell sigopt_notebook ''fa992019'')) = Some (NameError ''Connection'')"
  by (simp add: cell_def sigopt_notebook_def lookup_bind)

lemma run_all_first_error:
  "fst (run_all s cells) = (case fst (run_each s cells) of [] \<Rightarrow> None | e # es \<Rightarrow> Some e)"
  by (induction cells arbitrary: s) (auto split: prod.splits option.splits)

lemma sigopt_errors:
  "fst (run_each (initial env) sigopt_notebook) =
     (if ''SIGOPT_KEY'' \<in> set env then [] else [(''152fce99'', Raised ''ValueError'')])
     @ [(''fa992019'', NameError ''Connection'')]"
  using sigopt_run_with_key [of env] sigopt_run_without_key [of env]
  by (cases "''SIGOPT_KEY'' \<in> set env") (auto split: prod.splits)

lemma connection_unbound:
  "''Connection'' \<notin> set (bound_names sigopt_notebook)"
  "''Connection'' \<notin> set builtins"
  "''Connection'' \<notin> set ipython_names"
  by code_simp+

text \<open>
  C7. In the SigOpt notebook no statement of any cell imports, assigns or defines the name
  Connection, and it is not a builtin. So when the cells are executed in order, the cell
  \<open>fa992019\<close>, which evaluates \<open>Connection(client_token=os.environ["SIGOPT_KEY"])\<close>,
  raises NameError for Connection, whatever the environment: with SIGOPT_KEY set it is the
  only cell that fails and the one where "Run All" stops. More generally the cell raises this
  NameError in every state in which Connection is unbound and num_samples is bound.
\<close>

theorem connection_raises_name_error:
  "''Connection'' \<notin> set (bound_names sigopt_notebook)
   \<and> ''Connection'' \<notin> set builtins \<and> ''Connection'' \<notin> set ipython_names
   \<and> fst (run_each (initial env) sigopt_notebook) =
       (if ''SIGOPT_KEY'' \<in> set env then [] else [(''152fce99'', Raised ''ValueError'')])
       @ [(''fa992019'', NameError ''Connection'')]
   \<and> (''SIGOPT_KEY'' \<in> set env \<longrightarrow>
        fst (run_all (initial env) sigopt_notebook) = Some (''fa992019'', NameError ''Connection''))
   \<and> (\<forall>s v. lookup s ''Connection'' = Inl (NameError ''Connection'') \<longrightarrow>
          lookup s ''num_samples'' = Inr v \<longrightarrow>
          fst (exec_block s (cell sigopt_notebook ''fa992019'')) = Some (NameError ''Connection''))"
proof -
  have "''SIGOPT_KEY'' \<in> set env \<longrightarrow>
        fst (run_all (initial env) sigopt_notebook) = Some (''fa992019'', NameError ''Connection'')"
    by (simp add: run_all_first_error sigopt_errors)
  then show ?thesis
    using connection_unbound sigopt_errors [of env] connection_cell_name_error by blast
qed

theorem connection_raises_name_error_witness:
  "''SIGOPT_KEY'' \<in> set [''SIGOPT_KEY'']
   \<and> fst (run_all (initial [''SIGOPT_KEY'']) sigopt_notebook) =
       Some (''fa992019'', NameError ''Connection'')
   \<and> lookup \<lparr>ns = [(''num_samples'', VInt 10)], environ = [], calls = []\<rparr> ''Connection''
       = Inl (NameError ''Connection'')
   \<and> lookup \<lparr>ns = [(''num_samples'', VInt 10)], environ = [], calls = []\<rparr> ''num_samples''
       = Inr (VInt 10)
   \<and> fst (exec_block \<lparr>ns = [(''num_samples'', VInt 10)], environ = [], calls = []\<rparr>
            (cell sigopt_notebook ''fa992019'')) = Some (NameError ''Connection'')"
proof -
  let ?s = "\<lparr>ns = [(''num_samples'', VInt 10)], environ = [], calls = []\<rparr>"
  have a: "lookup ?s ''Connection'' = Inl (NameError ''Connection'')"
    by code_simp
  have b: "lookup ?s ''num_samples'' = Inr (VInt 10)"
    by code_simp
  from connection_raises_name_error [of "[''SIGOPT_KEY'']"] a b
  show ?thesis by simp
qed

text \<open>
  C3. The data notebook processes the NYC taxi dataset through the dataset API only.
  Executed in order, no cell fails, and the list of all external calls shows that every
  dataset operation is \<open>ray.data.read_parquet\<close> or a method called on a value that
  \<open>read_parquet\<close> produced. The dataset \<open>ds\<close> ends as: \<open>read_parquet\<close> of the two files,
  then \<open>map_batches\<close> keeping passenger_count <= 10, \<open>drop_columns\<close> of store_and_fwd_flag
  and mta_tax, \<open>map_batches\<close> keeping passenger_count > 0, and \<open>random_shuffle\<close>; grouped
  statistics (\<open>groupby\<close> with \<open>count\<close> and \<open>mean\<close>) are taken on the way. It is split
  with n = 4 and equal = True into shards 0..3; shard i is passed to \<open>train\<close> of the
  i-th of the 4 Trainer actors; and the three batch inferences are \<open>map_batches\<close> of
  BatchInferModel on the shuffled dataset. The calls that are not dataset operations are
  \<open>warnings.filterwarnings\<close>, \<open>ray.init\<close>, \<open>pyarrow.dataset.field\<close> (the filter
  expression handed to \<open>read_parquet\<close>), \<open>ray.remote\<close> with the actor calls,
  \<open>ray.get\<close> and \<open>ActorPoolStrategy\<close>.
\<close>

theorem taxi_dataset_flows_through_dataset_api:
  "case run_each (initial env) nyc_taxi_notebook of (errs, s) \<Rightarrow>
     errs = []
     \<and> map callee (calls s) =
         [''warnings.filterwarnings'', ''ray.init'', ''ray.data.read_parquet'',
          ''ray.data.read_parquet.schema'', ''ray.data.read_parquet.count'',
          ''ray.data.read_parquet.take'', ''ray.data.read_parquet.size_bytes'',
          ''ray.data.read_parquet.fully_executed'',
          ''ray.data.read_parquet.fully_executed.size_bytes'',
          ''ray.data.read_parquet'', ''ray.data.read_parquet.max'',
          ''ray.data.read_parquet.map_batches'',
          ''ray.data.read_parquet.map_batches.take'',
          ''ray.data.read_parquet.map_batches'',
          ''ray.data.read_parquet.map_batches.drop_columns'',
          ''ray.data.read_parquet.map_batches.drop_columns.groupby'',
          ''ray.data.read_parquet.map_batches.drop_columns.groupby.count'',
          ''ray.data.read_parquet.map_batches.drop_columns.groupby.count.take'',
          ''ray.data.read_parquet.map_batches.drop_columns.map_batches'',
          ''pyarrow.dataset.field'', ''pyarrow.dataset.field'',
          ''ray.data.read_parquet'', ''ray.data.read_parquet.fully_executed'',
          ''ray.data.read_parquet.map_batches.drop_columns.map_batches.groupby'',
          ''ray.data.read_parquet.map_batches.drop_columns.map_batches.groupby.mean'',
          ''ray.data.read_parquet.map_batches.drop_columns.map_batches.groupby.mean.take'',
          ''ray.data.read_parquet.map_batches.drop_columns.map_batches.random_shuffle'',
          ''ray.remote'', ''ray.remote.remote'', ''ray.remote.remote'',
          ''ray.remote.remote'', ''ray.remote.remote'',
          ''ray.data.read_parquet.map_batches.drop_columns.map_batches.random_shuffle.split'',
          ''ray.remote.remote.train.remote'', ''ray.remote.remote.train.remote'',
          ''ray.remote.remote.train.remote'', ''ray.remote.remote.train.remote'',
          ''ray.get'',
          ''ray.data.read_parquet.map_batches.drop_columns.map_batches.random_shuffle.map_batches'',
          ''ray.data.read_parquet.map_batches.drop_columns.map_batches.random_shuffle.map_batches.take'',
          ''ray.data.read_parquet.map_batches.drop_columns.map_batches.random_shuffle.map_batches'',
          ''ray.data.read_parquet.map_batches.drop_columns.map_batches.random_shuffle.map_batches.take'',
          ''ray.data.ActorPoolStrategy'',
          ''ray.data.read_parquet.map_batches.drop_columns.map_batches.random_shuffle.map_batches'',
          ''ray.data.read_parquet.map_batches.drop_columns.map_batches.random_shuffle.map_batches.take'']
     \<and> lookup s ''ds'' = Inr taxi_ds
     \<and> lookup s ''shards'' = Inr (VList (map (VIndex taxi_shards) [0, 1, 2, 3]))
     \<and> (case lookup s ''Trainer'' of
           Inl e \<Rightarrow> False
         | Inr T \<Rightarrow>
             callee T = ''ray.remote''
             \<and> filter (\<lambda>v. callee v = ''ray.get'') (calls s) =
                 [VCall (VLib ''ray.get'')
                    [VList (map (\<lambda>i. invoke (VAttr (invoke T ''remote'' [VInt (int i)]) ''train'')
                                        ''remote'' [VIndex taxi_shards i])
                              [0, 1, 2, 3])]])
     \<and> (case lookup s ''BatchInferModel'' of
           Inl e \<Rightarrow> False
         | Inr M \<Rightarrow>
             filter (\<lambda>v. callee v = callee taxi_ds @ ''.map_batches'') (calls s) =
               [invoke taxi_ds ''map_batches''
                  [M, VKw ''batch_size'' (VInt 2048), VKw ''compute'' (VStr ''actors'')],
                invoke taxi_ds ''map_batches''
                  [M, VKw ''batch_size'' (VInt 256), VKw ''compute'' (VStr ''actors'')],
                invoke taxi_ds ''map_batches''
                  [M, VKw ''batch_size'' (VInt 256),
                   VKw ''compute''
                     (VCall (VLib ''ray.data.ActorPoolStrategy'')
                        [VKw ''min_size'' (VInt 2), VKw ''max_size'' (VInt 8)])]])"
  by code_simp

lemma nyc_taxi_no_tune_run:
  "tune_runs (calls (snd (run_each (initial env) nyc_taxi_notebook))) = []"
  by code_simp

lemma callee_constructed:
  "map callee (constructed cs) = filter (\<lambda>p. p \<in> set search_backends) (map callee cs)"
  by (simp add: constructed_def filter_map comp_def)

text \<open>
  C1. Each of the three tuning notebooks constructs search algorithms of exactly one of
  the three backends and passes them to \<open>tune.run\<close> as \<open>search_alg\<close>. In the Nevergrad
  notebook both constructor calls are NevergradSearch with the optimizer
  ng.optimizers.OnePlusOne, and both \<open>tune.run\<close> calls receive it wrapped in
  ConcurrencyLimiter; in the BayesOpt notebook the one \<open>tune.run\<close> call receives
  BayesOptSearch wrapped in ConcurrencyLimiter; in the SigOpt notebook every \<open>tune.run\<close>
  call receives a SigOptSearch directly, whether or not SIGOPT_KEY is set. The data
  notebook calls \<open>tune.run\<close> nowhere. So the search algorithm behind every \<open>tune.run\<close>
  call of the repository is one of the three backends.
\<close>

theorem tuning_notebooks_use_one_backend:
  "(case run_each (initial env) nevergrad_notebook of (errs, s) \<Rightarrow>
      errs = []
      \<and> map callee (constructed (calls s)) =
          [''ray.tune.search.nevergrad.NevergradSearch'',
           ''ray.tune.search.nevergrad.NevergradSearch'']
      \<and> map (kwarg ''optimizer'' \<circ> call_args) (constructed (calls s)) =
          [Some (VLib ''nevergrad.optimizers.OnePlusOne''),
           Some (VLib ''nevergrad.optimizers.OnePlusOne'')]
      \<and> map (map_option callee \<circ> search_alg) (tune_runs (calls s)) =
          [Some ''ray.tune.search.ConcurrencyLimiter'',
           Some ''ray.tune.search.ConcurrencyLimiter'']
      \<and> map search_backend (tune_runs (calls s)) =
          [Some ''ray.tune.search.nevergrad.NevergradSearch'',
           Some ''ray.tune.search.nevergrad.NevergradSearch''])
   \<and> (case run_each (initial env) bayesopt_notebook of (errs, s) \<Rightarrow>
      errs = []
      \<and> map callee (constructed (calls s)) = [''ray.tune.search.bayesopt.BayesOptSearch'']
      \<and> map (map_option callee \<circ> search_alg) (tune_runs (calls s)) =
          [Some ''ray.tune.search.ConcurrencyLimiter'']
      \<and> map search_backend (tune_runs (calls s)) =
          [Some ''ray.tune.search.bayesopt.BayesOptSearch''])
   \<and> (case run_each (initial env) sigopt_notebook of (errs, s) \<Rightarrow>
      map callee (constructed (calls s)) =
          [''ray.tune.search.sigopt.SigOptSearch'', ''ray.tune.search.sigopt.SigOptSearch'']
      \<and> map (map_option callee \<circ> search_alg) (tune_runs (calls s)) =
          [Some ''ray.tune.search.sigopt.SigOptSearch'',
           Some ''ray.tune.search.sigopt.SigOptSearch'',
           Some ''ray.tune.search.sigopt.SigOptSearch'']
      \<and> map search_backend (tune_runs (calls s)) =
          [Some ''ray.tune.search.sigopt.SigOptSearch'',
           Some ''ray.tune.search.sigopt.SigOptSearch'',
           Some ''ray.tune.search.sigopt.SigOptSearch''])
   \<and> tune_runs (calls (snd (run_each (initial env) nyc_taxi_notebook))) = []"
proof -
  have n: "case run_each (initial env) nevergrad_notebook of (errs, s) \<Rightarrow>
      errs = []
      \<and> map callee (constructed (calls s)) =
          [''ray.tune.search.nevergrad.NevergradSearch'',
           ''ray.tune.search.nevergrad.NevergradSearch'']
      \<and> map (kwarg ''optimizer'' \<circ> call_args) (constructed (calls s)) =
          [Some (VLib ''nevergrad.optimizers.OnePlusOne''),
           Some (VLib ''nevergrad.optimizers.OnePlusOne'')]
      \<and> map (map_option callee \<circ> search_alg) (tune_runs (calls s)) =
          [Some ''ray.tune.search.ConcurrencyLimiter'',
           Some ''ray.tune.search.ConcurrencyLimiter'']
      \<and> map search_backend (tune_runs (calls s)) =
          [Some ''ray.tune.search.nevergrad.NevergradSearch'',
           Some ''ray.tune.search.nevergrad.NevergradSearch'']"
    using nevergrad_run [of env]
    by (simp add: callee_constructed search_backends_def split: prod.splits)
  have b: "case run_each (initial env) bayesopt_notebook of (errs, s) \<Rightarrow>
      errs = []
      \<and> map callee (constructed (calls s)) = [''ray.tune.search.bayesopt.BayesOptSearch'']
      \<and> map (map_option callee \<circ> search_alg) (tune_runs (calls s)) =
          [Some ''ray.tune.search.ConcurrencyLimiter'']
      \<and> map search_backend (tune_runs (calls s)) =
          [Some ''ray.tune.search.bayesopt.BayesOptSearch'']"
    using bayesopt_run [of env]
    by (simp add: callee_constructed search_backends_def split: prod.splits)
  have s: "case run_each (initial env) sigopt_notebook of (errs, s) \<Rightarrow>
      map callee (constructed (calls s)) =
          [''ray.tune.search.sigopt.SigOptSearch'', ''ray.tune.search.sigopt.SigOptSearch'']
      \<and> map (map_option callee \<circ> search_alg) (tune_runs (calls s)) =
          [Some ''ray.tune.search.sigopt.SigOptSearch'',
           Some ''ray.tune.search.sigopt.SigOptSearch'',
           Some ''ray.tune.search.sigopt.SigOptSearch'']
      \<and> map search_backend (tune_runs (calls s)) =
          [Some ''ray.tune.search.sigopt.SigOptSearch'',
           Some ''ray.tune.search.sigopt.SigOptSearch'',
           Some ''ray.tune.search.sigopt.SigOptSearch'']"
    using sigopt_run_with_key [of env] sigopt_run_without_key [of env]
    by (cases "''SIGOPT_KEY'' \<in> set env")
       (simp_all add: callee_constructed search_backends_def split: prod.splits)
  from n b s nyc_taxi_no_tune_run [of env] show ?thesis by blast
qed

lemma key_check_cell:
  "fst (exec_block (initial env) (cell sigopt_notebook ''152fce99'')) =
     (if ''SIGOPT_KEY'' \<in> set env then None else Some (Raised ''ValueError''))"
  by (simp add: cell_def sigopt_notebook_def run_simps)

lemma no_try_one_raise:
  "list_all (\<lambda>(cid, body). \<not> list_ex catches body) all_cells"
  "map fst (filter (\<lambda>(cid, body). list_ex raises body) all_cells) = [''152fce99'']"
  by code_simp+

text \<open>
  C4, as stated, fails: the import cell \<open>152fce99\<close> of the SigOpt notebook contains a
  \<open>raise\<close> statement of its own, and run without SIGOPT_KEY in the environment it raises
  ValueError.
\<close>

theorem key_check_raises_counterexample:
  "\<not> list_all (\<lambda>(cid, body). \<not> list_ex raises body) sigopt_notebook
   \<and> list_ex raises (cell sigopt_notebook ''152fce99'')
   \<and> fst (exec_block (initial []) (cell sigopt_notebook ''152fce99''))
       = Some (Raised ''ValueError'')
   \<and> fst (run_all (initial []) sigopt_notebook) = Some (''152fce99'', Raised ''ValueError'')"
  by code_simp

text \<open>
  C4, amended. No cell or function of the four notebooks catches or recovers from an error
  (there is no \<open>try\<close>), restart of crashed sub-environments and environment checking are
  switched by flags of the YAML file and left to the framework, and the only \<open>raise\<close> in the
  repository is the check of the SigOpt notebook's import cell, which raises ValueError
  exactly when SIGOPT_KEY is not in the environment.
\<close>

theorem only_key_check_raises_nothing_catches:
  "list_all (\<lambda>(cid, body). \<not> list_ex catches body) all_cells
   \<and> map fst (filter (\<lambda>(cid, body). list_ex raises body) all_cells) = [''152fce99'']
   \<and> fst (exec_block (initial env) (cell sigopt_notebook ''152fce99'')) =
        (if ''SIGOPT_KEY'' \<in> set env then None else Some (Raised ''ValueError''))
   \<and> cartpole_experiment [''config'', ''restart_failed_sub_environments''] = Some (YBool True)
   \<and> cartpole_experiment [''config'', ''disable_env_checking''] = Some (YBool True)"
proof -
  have "cartpole_experiment [''config'', ''restart_failed_sub_environments''] = Some (YBool True)"
    by (simp add: cartpole_experiment_def cartpole_crashing_yaml_def)
  moreover have "cartpole_experiment [''config'', ''disable_env_checking''] = Some (YBool True)"
    by (simp add: cartpole_experiment_def cartpole_crashing_yaml_def)
  ultimately show ?thesis
    using no_try_one_raise key_check_cell [of env] by simp
qed

end
